theory Spec2Isabelle
  imports Main
begin

section \<open>The reversi back end: one session per worker process\<close>

text \<open>
  The source is \<^verbatim>\<open>src/modules/reversi/back.ts\<close>: a class \<^verbatim>\<open>Session\<close> whose
  handlers are driven by the messages of the parent process. The model is a step function
  on a record of the session's fields. Everything the session does to the outside (the
  parent process, the console, the inference service, the publisher, the rules engine) is
  recorded in a list of effects, in the order the code performs it.

  Strings are byte strings (UTF-8 where the source has Japanese text); the output that
  \<^verbatim>\<open>executeCurlCommand\<close> parses is a sequence of UTF-16 code units.
\<close>

subsection \<open>Message payloads\<close>

record user_info =
  u_id :: string
  u_name :: "string option"
  u_username :: string

record game_info =
  user1Id :: string
  user2Id :: string
  user1 :: user_info
  user2 :: user_info
  black :: int
  g_map :: "string list"
  isLlotheo :: bool
  canPutEverywhere :: bool
  loopedBoard :: bool
  g_turn :: "bool option"

record form_item =
  fi_id :: string
  fi_value :: bool

record init_body =
  ib_game :: game_info
  ib_form :: "form_item list"
  ib_account :: user_info

text \<open>The body of \<^verbatim>\<open>ended\<close>: \<^verbatim>\<open>msg.game.surrendered\<close> and \<^verbatim>\<open>msg.winnerId\<close>.\<close>

record ended_body =
  surrendered :: bool
  winnerId :: "string option"

record log_body =
  log_id :: "string option"
  operation :: string
  log_pos :: int

datatype msg =
    Init init_body
  | Started game_info
  | Ended ended_body
  | Log log_body
  | Unknown string

subsection \<open>The rules engine, a parameter\<close>

text \<open>
  \<^verbatim>\<open>engine.js\<close> is imported by the source and is not part of it. The session uses a
  constructor, \<^verbatim>\<open>putStone\<close>, the fields \<^verbatim>\<open>turn\<close>, \<^verbatim>\<open>board\<close> and \<^verbatim>\<open>map\<close>, and the
  constant \<^verbatim>\<open>BLACK\<close>; they are the fields of a record that every handler takes as its
  first argument. A colour is a boolean (\<^verbatim>\<open>botColor\<close> is assigned a boolean expression
  and compared with \<^verbatim>\<open>engine.turn\<close> by \<^verbatim>\<open>===\<close>). A cell of the board is \<^verbatim>\<open>null\<close>,
  \<^verbatim>\<open>undefined\<close> or a colour. \<^verbatim>\<open>putStone\<close> receives a number from \<^verbatim>\<open>onLog\<close> and the
  text of the response from \<^verbatim>\<open>think\<close>. The engine's operations are taken to return
  normally.
\<close>

datatype cell = Null | Undefined | Stone bool

datatype posarg = Num int | Str string

record opts =
  o_isLlotheo :: bool
  o_canPutEverywhere :: bool
  o_loopedBoard :: bool

record 'e reversi =
  newGame :: "string list \<Rightarrow> opts \<Rightarrow> 'e"
  putStone :: "'e \<Rightarrow> posarg \<Rightarrow> 'e"
  turn :: "'e \<Rightarrow> bool option"
  board :: "'e \<Rightarrow> cell list"
  mapCells :: "'e \<Rightarrow> string list"
  BLACK :: bool

subsection \<open>The session and its effects\<close>

datatype status = Running | Exited | Crashed

record created_note =
  note_id :: string

text \<open>
  The fields of \<^verbatim>\<open>Session\<close>; a field the constructor leaves unassigned is \<open>None\<close>.
  Four fields are the model's: \<open>inflight\<close> counts the \<^verbatim>\<open>think\<close> calls suspended at
  \<^verbatim>\<open>await fetch\<close>, \<open>pendingPosts\<close> has one entry for each \<^verbatim>\<open>onEnded\<close> call suspended at
  \<^verbatim>\<open>await this.post\<close> (\<open>True\<close> when a request was sent to the publisher),
  \<open>rejections\<close> counts the rejected promises the runtime has not acted on yet, and
  \<open>status\<close> says whether the process is alive (\<open>Exited\<close> after \<^verbatim>\<open>process.exit()\<close>,
  \<open>Crashed\<close> once the runtime has ended it for an unhandled rejection).
\<close>

record 'e session =
  account :: "user_info option"
  game :: "game_info option"
  form :: "form_item list option"
  engine :: "'e option"
  botColor :: "bool option"
  appliedOps :: "string list"
  maxTurn :: "int option"
  currentTurn :: nat
  startedNote :: "created_note option"
  inflight :: nat
  pendingPosts :: "bool list"
  rejections :: nat
  status :: status

definition newSession :: "'e session" where
  "newSession = \<lparr> account = None, game = None, form = None, engine = None,
     botColor = None, appliedOps = [], maxTurn = None, currentTurn = 0,
     startedNote = None, inflight = 0, pendingPosts = [], rejections = 0,
     status = Running \<rparr>"

text \<open>The eight texts of \<^verbatim>\<open>serifs.reversi\<close> that \<^verbatim>\<open>onEnded\<close> chooses from, each applied
  to the opponent's display name.\<close>

datatype serif =
    SettaiButYouSurrendered string
  | YouSurrendered string
  | IWonButSettai string
  | IWon string
  | ILoseButSettai string
  | ILose string
  | DrawnSettai string
  | Drawn string

datatype logged = FetchFailure | HttpError int | BodyFailure | EngineMissing | PublishFailure

datatype effect =
    SendEnded
  | Exit
  | Fetch string string
  | ConsoleLog string
  | ConsoleError logged
  | EngineNew
  | EnginePut posarg
  | Publish serif "string option"
  | UnhandledRejection

text \<open>
  A handler that throws does so inside the \<^verbatim>\<open>async\<close> function \<^verbatim>\<open>onMessage\<close>, whose
  promise nobody awaits: an unhandled rejection. The rest of the handler is skipped and the
  assignments made before the throw stay. The process is still alive: it goes on handling
  the events that arrive until the runtime acts on the rejection (the event
  \<open>RejectionReported\<close> of the event loop below), which ends it. A runtime that only
  warns never delivers that event.
\<close>

definition crash :: "'e session \<Rightarrow> effect list \<Rightarrow> 'e session \<times> effect list" where
  "crash s fx = (s\<lparr>rejections := Suc (rejections s)\<rparr>, fx @ [UnhandledRejection])"

subsection \<open>Getters\<close>

definition getUserName :: "user_info \<Rightarrow> string" where
  "getUserName u =
     (case u_name u of
        None \<Rightarrow> u_username u
      | Some n \<Rightarrow> if n = [] then u_username u else n)"

definition san :: string where
  "san = [CHR 0xE3, CHR 0x81, CHR 0x95, CHR 0xE3, CHR 0x82, CHR 0x93]"

definition titles :: "string list" where
  "titles =
    [[CHR 0xE3, CHR 0x81, CHR 0x95, CHR 0xE3, CHR 0x82, CHR 0x93],
     [CHR 0xE3, CHR 0x82, CHR 0xB5, CHR 0xE3, CHR 0x83, CHR 0xB3],
     [CHR 0xEF, CHR 0xBD, CHR 0xBB, CHR 0xEF, CHR 0xBE, CHR 0x9D],
     [CHR 0xE3, CHR 0x8C, CHR 0xA0],
     [CHR 0xE3, CHR 0x81, CHR 0xA1, CHR 0xE3, CHR 0x82, CHR 0x83, CHR 0xE3, CHR 0x82, CHR 0x93],
     [CHR 0xE3, CHR 0x83, CHR 0x81, CHR 0xE3, CHR 0x83, CHR 0xA3, CHR 0xE3, CHR 0x83, CHR 0xB3],
     [CHR 0xEF, CHR 0xBE, CHR 0x81, CHR 0xEF, CHR 0xBD, CHR 0xAC, CHR 0xEF, CHR 0xBE, CHR 0x9D],
     [CHR 0xE5, CHR 0x90, CHR 0x9B],
     [CHR 0xE3, CHR 0x81, CHR 0x8F, CHR 0xE3, CHR 0x82, CHR 0x93],
     [CHR 0xE3, CHR 0x82, CHR 0xAF, CHR 0xE3, CHR 0x83, CHR 0xB3],
     [CHR 0xEF, CHR 0xBD, CHR 0xB8, CHR 0xEF, CHR 0xBE, CHR 0x9D],
     [CHR 0xE5, CHR 0x85, CHR 0x88, CHR 0xE7, CHR 0x94, CHR 0x9F],
     [CHR 0xE3, CHR 0x81, CHR 0x9B, CHR 0xE3, CHR 0x82, CHR 0x93, CHR 0xE3, CHR 0x81, CHR 0x9B,
      CHR 0xE3, CHR 0x81, CHR 0x84],
     [CHR 0xE3, CHR 0x82, CHR 0xBB, CHR 0xE3, CHR 0x83, CHR 0xB3, CHR 0xE3, CHR 0x82, CHR 0xBB,
      CHR 0xE3, CHR 0x82, CHR 0xA4],
     [CHR 0xEF, CHR 0xBD, CHR 0xBE, CHR 0xEF, CHR 0xBE, CHR 0x9D, CHR 0xEF, CHR 0xBD, CHR 0xBE,
      CHR 0xEF, CHR 0xBD, CHR 0xB2]]"

definition endsWith :: "string \<Rightarrow> string \<Rightarrow> bool" where
  "endsWith name x = (take (length x) (rev name) = rev x)"

text \<open>The getter \<^verbatim>\<open>user\<close>: the opponent. It reads \<^verbatim>\<open>this.game\<close> and \<^verbatim>\<open>this.account\<close>
  and throws a TypeError (\<open>None\<close>) when one of them is still undefined.\<close>

definition opponent :: "'e session \<Rightarrow> user_info option" where
  "opponent s =
     (case game s of
        None \<Rightarrow> None
      | Some g \<Rightarrow>
          (case account s of
             None \<Rightarrow> None
           | Some a \<Rightarrow> Some (if user1Id g = u_id a then user2 g else user1 g)))"

definition userName :: "string \<Rightarrow> 'e session \<Rightarrow> string option" where
  "userName host s =
     (case opponent s of
        None \<Rightarrow> None
      | Some u \<Rightarrow>
          (let name = getUserName u in
           Some (''?['' @ name @ '']('' @ host @ ''/@'' @ u_username u @ '')''
                 @ (if list_ex (endsWith name) titles then [] else san))))"

text \<open>The getter \<^verbatim>\<open>allowPost\<close>: the value of the form's first item with id
  \<^verbatim>\<open>publish\<close>; a TypeError (\<open>None\<close>) without a form or without such an item.\<close>

definition allowPost :: "'e session \<Rightarrow> bool option" where
  "allowPost s =
     (case form s of
        None \<Rightarrow> None
      | Some f \<Rightarrow> map_option fi_value (find (\<lambda>i. fi_id i = ''publish'') f))"

text \<open>\<^verbatim>\<open>this.isSettai\<close>: the class declares no member of this name, neither a field nor a
  getter, so the property read yields \<^verbatim>\<open>undefined\<close>, which is falsy.\<close>

definition isSettai :: "'e session \<Rightarrow> bool" where
  "isSettai s = False"

subsection \<open>think\<close>

definition boardStateToString :: "'e reversi \<Rightarrow> 'e \<Rightarrow> string" where
  "boardStateToString R e =
     map (\<lambda>c. if c = Null then CHR ''0''
              else if c = Stone (BLACK R) then CHR ''1'' else CHR ''2'')
         (board R e)"

text \<open>
  \<^verbatim>\<open>think\<close> up to its first \<^verbatim>\<open>await\<close>: the board is encoded, the turn indicator is
  computed from \<^verbatim>\<open>this.game.turn\<close>, and the request is sent. The call then is suspended;
  no test of an earlier call still being suspended is made.
\<close>

definition think :: "'e reversi \<Rightarrow> 'e session \<Rightarrow> 'e session \<times> effect list" where
  "think R s =
     (case engine s of
        None \<Rightarrow> crash s []
      | Some e \<Rightarrow>
          (case game s of
             None \<Rightarrow> crash s []
           | Some g \<Rightarrow>
               (s\<lparr>inflight := Suc (inflight s)\<rparr>,
                [Fetch (boardStateToString R e)
                       (if g_turn g = Some (BLACK R) then ''0'' else ''1'')])))"

text \<open>
  What the inference service's request comes to: \<^verbatim>\<open>fetch\<close> rejects, or it resolves to
  a response with \<^verbatim>\<open>ok\<close>, \<^verbatim>\<open>status\<close> and a body (\<open>None\<close> when reading the body
  rejects).
\<close>

datatype fetch_outcome = FetchRejected | HttpResponse bool int "string option"

text \<open>
  The rest of \<^verbatim>\<open>think\<close>, inside its \<^verbatim>\<open>try\<close>. The two awaits (of the response and of
  its text) are one step: nothing of the session is read or written between them. With a
  successful status the text of the body goes to \<^verbatim>\<open>putStone\<close> as it is.
\<close>

definition thinkSettled ::
  "'e reversi \<Rightarrow> 'e session \<Rightarrow> fetch_outcome \<Rightarrow> 'e session \<times> effect list" where
  "thinkSettled R s out =
     (case out of
        FetchRejected \<Rightarrow> (s, [ConsoleError FetchFailure])
      | HttpResponse ok st body \<Rightarrow>
          if \<not> ok then (s, [ConsoleError (HttpError st)])
          else
            (case body of
               None \<Rightarrow> (s, [ConsoleError BodyFailure])
             | Some nextMove \<Rightarrow>
                 (case engine s of
                    None \<Rightarrow> (s, [ConsoleLog nextMove, ConsoleError EngineMissing])
                  | Some e \<Rightarrow>
                      (s\<lparr>engine := Some (putStone R e (Str nextMove)),
                         currentTurn := Suc (currentTurn s)\<rparr>,
                       [ConsoleLog nextMove, EnginePut (Str nextMove)]))))"

subsection \<open>The handlers\<close>

definition onInit :: "'e session \<Rightarrow> init_body \<Rightarrow> 'e session \<times> effect list" where
  "onInit s m = (s\<lparr>game := Some (ib_game m), form := Some (ib_form m),
                   account := Some (ib_account m)\<rparr>, [])"

definition computeMaxTurn :: "'e reversi \<Rightarrow> 'e \<Rightarrow> int" where
  "computeMaxTurn R e =
     int (length (filter (\<lambda>p. p = ''empty'') (mapCells R e)))
     - int (length (filter (\<lambda>x. x \<noteq> Null \<and> x \<noteq> Undefined) (board R e)))"

definition computeBotColor :: "game_info \<Rightarrow> user_info \<Rightarrow> bool" where
  "computeBotColor g a =
     (user1Id g = u_id a \<and> black g = 1 \<or> user2Id g = u_id a \<and> black g = 2)"

definition onStarted ::
  "'e reversi \<Rightarrow> 'e session \<Rightarrow> game_info \<Rightarrow> 'e session \<times> effect list" where
  "onStarted R s g =
     (let s1 = s\<lparr>game := Some g\<rparr> in
      if canPutEverywhere g then (s1\<lparr>status := Exited\<rparr>, [SendEnded, Exit])
      else
        (let e = newGame R (g_map g)
                   \<lparr>o_isLlotheo = isLlotheo g, o_canPutEverywhere = canPutEverywhere g,
                    o_loopedBoard = loopedBoard g\<rparr>;
             s2 = s1\<lparr>engine := Some e, maxTurn := Some (computeMaxTurn R e)\<rparr>
         in case account s2 of
              None \<Rightarrow> crash s2 [EngineNew]
            | Some a \<Rightarrow>
                (let s3 = s2\<lparr>botColor := Some (computeBotColor g a)\<rparr> in
                 if computeBotColor g a
                 then (let (s4, fx) = think R s3 in (s4, EngineNew # fx))
                 else (s3, [EngineNew]))))"

text \<open>The text \<^verbatim>\<open>onEnded\<close> chooses; every branch evaluates \<^verbatim>\<open>this.userName\<close>, so the
  result is \<open>None\<close> (a TypeError) exactly when that getter throws. A \<^verbatim>\<open>winnerId\<close>
  that is the empty string is falsy.\<close>

definition endedText :: "string \<Rightarrow> 'e session \<Rightarrow> ended_body \<Rightarrow> serif option" where
  "endedText host s m =
     (case account s of
        None \<Rightarrow> None
      | Some a \<Rightarrow>
          (case userName host s of
             None \<Rightarrow> None
           | Some un \<Rightarrow>
               Some
                (if surrendered m then
                   (if isSettai s then SettaiButYouSurrendered un else YouSurrendered un)
                 else if winnerId m \<noteq> None \<and> winnerId m \<noteq> Some [] then
                   (if winnerId m = Some (u_id a) then
                      (if isSettai s then IWonButSettai un else IWon un)
                    else
                      (if isSettai s then ILoseButSettai un else ILose un))
                 else
                   (if isSettai s then DrawnSettai un else Drawn un))))"

text \<open>\<^verbatim>\<open>post\<close> up to its \<^verbatim>\<open>await\<close>: \<open>None\<close> when \<^verbatim>\<open>allowPost\<close> throws, else whether a
  request is sent and the effects.\<close>

definition post ::
  "'e session \<Rightarrow> serif \<Rightarrow> created_note option \<Rightarrow> (bool \<times> effect list) option" where
  "post s text renote =
     (case allowPost s of
        None \<Rightarrow> None
      | Some allowed \<Rightarrow>
          Some (if allowed then (True, [Publish text (map_option note_id renote)])
                else (False, [])))"

text \<open>\<^verbatim>\<open>onEnded\<close> up to \<^verbatim>\<open>await this.post(...)\<close>, where the call is suspended.\<close>

definition onEnded ::
  "string \<Rightarrow> 'e session \<Rightarrow> ended_body \<Rightarrow> 'e session \<times> effect list" where
  "onEnded host s m =
     (case endedText host s m of
        None \<Rightarrow> crash s [SendEnded]
      | Some text \<Rightarrow>
          (case post s text (startedNote s) of
             None \<Rightarrow> crash s [SendEnded]
           | Some (sent, fx) \<Rightarrow>
               (s\<lparr>pendingPosts := pendingPosts s @ [sent]\<rparr>, SendEnded # fx)))"

text \<open>The rest of \<^verbatim>\<open>onEnded\<close>, once the \<open>i\<close>-th suspended \<^verbatim>\<open>post\<close> has returned: a
  failed request is logged by \<^verbatim>\<open>post\<close>, and the process exits.\<close>

definition postSettled :: "'e session \<Rightarrow> nat \<Rightarrow> bool \<Rightarrow> 'e session \<times> effect list" where
  "postSettled s i failed =
     (s\<lparr>status := Exited\<rparr>,
      (if pendingPosts s ! i \<and> failed then [ConsoleError PublishFailure] else []) @ [Exit])"

text \<open>\<^verbatim>\<open>engine.turn === botColor\<close>: \<^verbatim>\<open>null\<close> and \<^verbatim>\<open>undefined\<close> equal no colour, and
  not each other.\<close>

definition sameColor :: "bool option \<Rightarrow> bool option \<Rightarrow> bool" where
  "sameColor t b = (case t of None \<Rightarrow> False | Some x \<Rightarrow> (case b of None \<Rightarrow> False | Some y \<Rightarrow> x = y))"

definition onLog :: "'e reversi \<Rightarrow> 'e session \<Rightarrow> log_body \<Rightarrow> 'e session \<times> effect list" where
  "onLog R s l =
     (if (case log_id l of None \<Rightarrow> True | Some i \<Rightarrow> i \<notin> set (appliedOps s)) then
        (if operation l = ''put'' then
           (case engine s of
              None \<Rightarrow> crash s []
            | Some e \<Rightarrow>
                (let e' = putStone R e (Num (log_pos l));
                     s1 = s\<lparr>engine := Some e', currentTurn := Suc (currentTurn s)\<rparr>
                 in if sameColor (turn R e') (botColor s1)
                    then (let (s2, fx) = think R s1 in (s2, EnginePut (Num (log_pos l)) # fx))
                    else (s1, [EnginePut (Num (log_pos l))])))
         else (s, []))
      else (s, []))"

definition onMessage ::
  "'e reversi \<Rightarrow> string \<Rightarrow> 'e session \<Rightarrow> msg \<Rightarrow> 'e session \<times> effect list" where
  "onMessage R host s m =
     (case m of
        Init b \<Rightarrow> onInit s b
      | Started g \<Rightarrow> onStarted R s g
      | Ended b \<Rightarrow> onEnded host s b
      | Log l \<Rightarrow> onLog R s l
      | Unknown t \<Rightarrow> (s, []))"

subsection \<open>The event loop\<close>

text \<open>
  One event is a message of the parent, the settling of a suspended \<^verbatim>\<open>think\<close>, the
  settling of the \<open>i\<close>-th suspended \<^verbatim>\<open>post\<close>, or the runtime ending the process for
  an unhandled rejection. A process that has ended handles nothing; a settling with nothing
  suspended, and a report with no rejection pending, cannot happen and are no-ops of the
  model.
\<close>

datatype event =
    Message msg
  | FetchSettled fetch_outcome
  | PostSettled nat bool
  | RejectionReported

definition step ::
  "'e reversi \<Rightarrow> string \<Rightarrow> 'e session \<Rightarrow> event \<Rightarrow> 'e session \<times> effect list" where
  "step R host s ev =
     (if status s \<noteq> Running then (s, [])
      else
        (case ev of
           Message m \<Rightarrow> onMessage R host s m
         | FetchSettled out \<Rightarrow>
             if inflight s = 0 then (s, [])
             else thinkSettled R (s\<lparr>inflight := inflight s - 1\<rparr>) out
         | PostSettled i failed \<Rightarrow>
             if i < length (pendingPosts s) then postSettled s i failed else (s, [])
         | RejectionReported \<Rightarrow>
             if rejections s = 0 then (s, []) else (s\<lparr>status := Crashed\<rparr>, [])))"

fun run ::
  "'e reversi \<Rightarrow> string \<Rightarrow> 'e session \<Rightarrow> event list \<Rightarrow> 'e session \<times> effect list" where
  "run R host s [] = (s, [])"
| "run R host s (ev # evs) =
     (let (s1, fx1) = step R host s ev;
          (s2, fx2) = run R host s1 evs
      in (s2, fx1 @ fx2))"

subsection \<open>executeCurlCommand\<close>

text \<open>
  The one place of the source that parses and validates a position. No other function
  calls it. \<^verbatim>\<open>require\<close> is taken to be defined. \<^verbatim>\<open>exec\<close> rejects, or resolves to the
  command's output and error output.

  The output is a JavaScript string: a sequence of UTF-16 code units, here natural
  numbers; \<open>ascii\<close> turns a literal into one. \<^verbatim>\<open>trim\<close> removes the white space and line
  terminators of ECMAScript at both ends: tab, line feed, vertical tab, form feed, carriage
  return, space, U+00A0, U+1680, U+2000 to U+200A, U+2028, U+2029, U+202F, U+205F, U+3000
  and U+FEFF. \<^verbatim>\<open>parseInt(x, 10)\<close> skips the same characters at the start, reads an
  optional sign and the longest run of the digits \<^verbatim>\<open>0\<close> to \<^verbatim>\<open>9\<close>, ignores what follows,
  and is \<^verbatim>\<open>NaN\<close> (\<open>None\<close>) when there is no digit. A JavaScript number is a double:
  beyond \<open>2^53\<close> the value read is rounded, which changes neither of the two comparisons
  with \<open>0\<close> and \<open>63\<close>; the result \<^verbatim>\<open>-0\<close> of \<^verbatim>\<open>"-0"\<close> is \<open>0\<close> here.
\<close>

type_synonym jsstring = "nat list"

definition ascii :: "string \<Rightarrow> jsstring" where
  "ascii x = map of_char x"

definition isWhiteSpace :: "nat \<Rightarrow> bool" where
  "isWhiteSpace c =
     (c \<in> {0x09, 0x0A, 0x0B, 0x0C, 0x0D, 0x20, 0xA0, 0x1680, 0x2028, 0x2029, 0x202F, 0x205F,
            0x3000, 0xFEFF}
      \<or> (0x2000 \<le> c \<and> c \<le> 0x200A))"

definition trim :: "jsstring \<Rightarrow> jsstring" where
  "trim x = rev (dropWhile isWhiteSpace (rev (dropWhile isWhiteSpace x)))"

definition isDigit :: "nat \<Rightarrow> bool" where
  "isDigit c = (48 \<le> c \<and> c \<le> 57)"

definition digitValue :: "nat \<Rightarrow> int" where
  "digitValue c = int c - 48"

definition decimalValue :: "jsstring \<Rightarrow> int" where
  "decimalValue ds = foldl (\<lambda>a c. 10 * a + digitValue c) 0 ds"

definition minusSign :: nat where
  "minusSign = 45"

definition plusSign :: nat where
  "plusSign = 43"

definition parseInt :: "jsstring \<Rightarrow> int option" where
  "parseInt x =
     (let y = dropWhile isWhiteSpace x;
          negative = (case y of [] \<Rightarrow> False | c # r \<Rightarrow> c = minusSign);
          z = (case y of [] \<Rightarrow> [] | c # r \<Rightarrow> if c = minusSign \<or> c = plusSign then r else y);
          ds = takeWhile isDigit z
      in if ds = [] then None
         else Some (if negative then - decimalValue ds else decimalValue ds))"

datatype exec_outcome = ExecRejected string | ExecResolved jsstring jsstring

datatype curl_error = ExecError string | CurlStderr jsstring | InvalidResponse jsstring

text \<open>The \<^verbatim>\<open>catch\<close> block logs the message of what was thrown and throws it again: the
  caller gets the error the \<^verbatim>\<open>try\<close> block raised.\<close>

definition executeCurlCommand :: "exec_outcome \<Rightarrow> curl_error + int" where
  "executeCurlCommand out =
     (case out of
        ExecRejected m \<Rightarrow> Inl (ExecError m)
      | ExecResolved stdout stderr \<Rightarrow>
          if stderr \<noteq> [] then Inl (CurlStderr stderr)
          else
            (case parseInt (trim stdout) of
               None \<Rightarrow> Inl (InvalidResponse stdout)
             | Some response \<Rightarrow>
                 if response < 0 \<or> response > 63 then Inl (InvalidResponse stdout)
                 else Inr response))"

subsection \<open>Reading a trace of effects\<close>

fun isFetch :: "effect \<Rightarrow> bool" where
  "isFetch (Fetch b t) = True"
| "isFetch _ = False"

fun isEnginePut :: "effect \<Rightarrow> bool" where
  "isEnginePut (EnginePut p) = True"
| "isEnginePut _ = False"

fun isPublish :: "effect \<Rightarrow> bool" where
  "isPublish (Publish t r) = True"
| "isPublish _ = False"

fun renoteIdOf :: "effect \<Rightarrow> string option" where
  "renoteIdOf (Publish t r) = r"
| "renoteIdOf _ = None"

fun isSettaiText :: "serif \<Rightarrow> bool" where
  "isSettaiText (SettaiButYouSurrendered n) = True"
| "isSettaiText (IWonButSettai n) = True"
| "isSettaiText (ILoseButSettai n) = True"
| "isSettaiText (DrawnSettai n) = True"
| "isSettaiText _ = False"

text \<open>The number of \<^verbatim>\<open>think\<close> calls in a trace: each call sends one request.\<close>

definition thinkCalls :: "effect list \<Rightarrow> nat" where
  "thinkCalls fx = length (filter isFetch fx)"

definition placements :: "effect list \<Rightarrow> nat" where
  "placements fx = length (filter isEnginePut fx)"

subsection \<open>A stand-in for the rules engine\<close>

text \<open>
  Modelled from the spec: the rules engine (\<^verbatim>\<open>engine.js\<close>) is imported by the source and
  is not part of it. The specification describes it by its interface only: a constructor
  taking a board map and the rule flags, "place stone at position", "whose turn is it"
  and "full board snapshot". This stand-in is used where a concrete trace is evaluated; the
  general theorems hold for every engine. A map character \<^verbatim>\<open>-\<close> is an empty placeable
  cell, \<^verbatim>\<open>b\<close> and \<^verbatim>\<open>w\<close> are placeable cells holding a stone, any other character is
  no cell. The first colour (\<open>True\<close>) moves first; placing a stone puts the mover's colour
  on the cell when the position is a cell index and hands the turn to the other colour.
  No stone is flipped and no pass or end of game is detected.
\<close>

record stand_in =
  si_board :: "cell list"
  si_turn :: "bool option"
  si_map :: "string list"

definition standInNew :: "string list \<Rightarrow> opts \<Rightarrow> stand_in" where
  "standInNew rows os =
     \<lparr> si_board = map (\<lambda>c. if c = CHR ''-'' then Null
                           else if c = CHR ''b'' then Stone True
                           else if c = CHR ''w'' then Stone False else Undefined)
                     (concat rows),
       si_turn = Some True,
       si_map = map (\<lambda>c. if c = CHR ''-'' \<or> c = CHR ''b'' \<or> c = CHR ''w''
                         then ''empty'' else ''null'')
                   (concat rows) \<rparr>"

definition standInPut :: "stand_in \<Rightarrow> posarg \<Rightarrow> stand_in" where
  "standInPut e p =
     (case si_turn e of
        None \<Rightarrow> e
      | Some c \<Rightarrow>
          (case p of
             Num i \<Rightarrow>
               if 0 \<le> i \<and> i < int (length (si_board e))
               then e\<lparr>si_board := (si_board e)[nat i := Stone c], si_turn := Some (\<not> c)\<rparr>
               else e\<lparr>si_turn := Some (\<not> c)\<rparr>
           | Str t \<Rightarrow> e\<lparr>si_turn := Some (\<not> c)\<rparr>))"

definition standIn :: "stand_in reversi" where
  "standIn = \<lparr> newGame = standInNew, putStone = standInPut, turn = si_turn,
               board = si_board, mapCells = si_map, BLACK = True \<rparr>"

subsection \<open>Concrete sessions\<close>

text \<open>
  The inputs at which the theorems below are evaluated: a two by two board with one stone of
  each colour, the session's own account \<open>exBot\<close>, a game in which it holds the first
  colour, and a game between two other accounts.
\<close>

definition exHost :: string where
  "exHost = ''https://m.example''"

definition exBot :: user_info where
  "exBot = \<lparr>u_id = ''bot'', u_name = Some ''ai'', u_username = ''ai''\<rparr>"

definition exAlice :: user_info where
  "exAlice = \<lparr>u_id = ''u1'', u_name = None, u_username = ''alice''\<rparr>"

definition exCarol :: user_info where
  "exCarol = \<lparr>u_id = ''u2'', u_name = Some ''Carol'', u_username = ''carol''\<rparr>"

definition exGame :: game_info where
  "exGame = \<lparr>user1Id = ''bot'', user2Id = ''u1'', user1 = exBot, user2 = exAlice, black = 1,
     g_map = [''-b'', ''w-''], isLlotheo = False, canPutEverywhere = False,
     loopedBoard = False, g_turn = None\<rparr>"

definition exFreeGame :: game_info where
  "exFreeGame = exGame\<lparr>canPutEverywhere := True\<rparr>"

definition exWatchGame :: game_info where
  "exWatchGame = \<lparr>user1Id = ''u1'', user2Id = ''u2'', user1 = exAlice, user2 = exCarol,
     black = 1, g_map = [''-b'', ''w-''], isLlotheo = False, canPutEverywhere = False,
     loopedBoard = False, g_turn = None\<rparr>"

definition exInit :: init_body where
  "exInit = \<lparr>ib_game = exGame, ib_form = [\<lparr>fi_id = ''publish'', fi_value = True\<rparr>],
     ib_account = exBot\<rparr>"

definition exWatchInit :: init_body where
  "exWatchInit = \<lparr>ib_game = exWatchGame,
     ib_form = [\<lparr>fi_id = ''publish'', fi_value = True\<rparr>], ib_account = exBot\<rparr>"

definition exPut :: "string option \<Rightarrow> int \<Rightarrow> event" where
  "exPut i p = Message (Log \<lparr>log_id = i, operation = ''put'', log_pos = p\<rparr>)"

definition exEnded :: "bool \<Rightarrow> string option \<Rightarrow> event" where
  "exEnded sur w = Message (Ended \<lparr>surrendered = sur, winnerId = w\<rparr>)"

text \<open>The session after \<^verbatim>\<open>_init_\<close>; after \<^verbatim>\<open>_init_\<close> and \<^verbatim>\<open>started\<close> as the first
  colour (one request in flight); and after them for a game of two other accounts.\<close>

definition exConfigured :: "stand_in session" where
  "exConfigured = fst (run standIn exHost newSession [Message (Init exInit)])"

definition exPlaying :: "stand_in session" where
  "exPlaying = fst (run standIn exHost newSession [Message (Init exInit), Message (Started exGame)])"

definition exWatching :: "stand_in session" where
  "exWatching =
     fst (run standIn exHost newSession [Message (Init exWatchInit), Message (Started exWatchGame)])"

definition signals :: "effect list \<Rightarrow> nat" where
  "signals fx = length (filter (\<lambda>e. e = SendEnded) fx)"

definition publishes :: "effect list \<Rightarrow> nat" where
  "publishes fx = length (filter isPublish fx)"

definition exOpponentName :: string where
  "exOpponentName = ''?[alice](https://m.example/@alice)'' @ san"

definition exFinishedGame :: "event list" where
  "exFinishedGame = [Message (Init exInit), Message (Started exGame),
     exEnded False (Some ''bot''), PostSettled 0 False]"

definition exAfterMove :: "stand_in session" where
  "exAfterMove = fst (run standIn exHost exPlaying [exPut (Some ''a'') 0])"

fun isEndedEvent :: "event \<Rightarrow> bool" where
  "isEndedEvent (Message (Ended b)) = True"
| "isEndedEvent _ = False"

definition exTwoInFlight :: "stand_in session" where
  "exTwoInFlight = fst (run standIn exHost exAfterMove [exPut (Some ''b'') 3])"

definition exEnding :: "stand_in session" where
  "exEnding = fst (run standIn exHost exPlaying [exEnded False (Some ''bot'')])"

section \<open>General facts about the event loop\<close>

lemma step_not_running: "status s \<noteq> Running \<Longrightarrow> step R host s ev = (s, [])"
  by (simp add: step_def)

lemma run_not_running: "status s \<noteq> Running \<Longrightarrow> run R host s evs = (s, [])"
  by (induction evs) (simp_all add: step_not_running)

lemma think_result:
  assumes "think R s = (s', fx)"
  shows "startedNote s' = startedNote s" and "currentTurn s' = currentTurn s"
    and "appliedOps s' = appliedOps s"
    and "fx = [UnhandledRejection] \<or> (\<exists>b t. fx = [Fetch b t])"
  using assms by (auto simp: think_def crash_def split: option.splits)

lemma think_no_publish: "think R s = (s', fx) \<Longrightarrow> Publish t r \<notin> set fx"
  by (auto dest: think_result(4))

lemma think_placements:
  "think R s = (s', fx) \<Longrightarrow> currentTurn s' = currentTurn s \<and> filter isEnginePut fx = []"
  by (auto dest: think_result(2) think_result(4))

lemma think_ok:
  "engine s = Some e \<Longrightarrow> game s = Some g \<Longrightarrow>
   think R s = (s\<lparr>inflight := Suc (inflight s)\<rparr>,
                [Fetch (boardStateToString R e) (if g_turn g = Some (BLACK R) then ''0'' else ''1'')])"
  by (simp add: think_def)

text \<open>No handler assigns \<^verbatim>\<open>appliedOps\<close>: the list is read by \<^verbatim>\<open>onLog\<close> and stays as
  the constructor made it.\<close>

lemma step_appliedOps: "appliedOps (fst (step R host s ev)) = appliedOps s"
proof (cases ev)
  case (Message m)
  then show ?thesis
    by (cases m)
       (auto simp: step_def onMessage_def onInit_def onStarted_def onEnded_def onLog_def
          crash_def Let_def
          split: option.splits prod.splits if_splits dest: think_result(3))
next
  case (FetchSettled out)
  then show ?thesis
    by (auto simp: step_def thinkSettled_def split: fetch_outcome.splits option.splits)
next
  case (PostSettled i failed)
  then show ?thesis by (simp add: step_def postSettled_def)
next
  case RejectionReported
  then show ?thesis by (simp add: step_def)
qed

lemma run_appliedOps: "appliedOps (fst (run R host s evs)) = appliedOps s"
proof (induction evs arbitrary: s)
  case Nil
  show ?case by simp
next
  case (Cons ev evs)
  have "appliedOps (fst (run R host (fst (step R host s ev)) evs)) = appliedOps s"
    by (simp add: Cons.IH step_appliedOps)
  then show ?case by (simp add: split_beta)
qed

subsection \<open>The stored announcement\<close>

lemma onMessage_startedNote: "startedNote (fst (onMessage R host s m)) = startedNote s"
  by (cases m)
     (auto simp: onMessage_def onInit_def onStarted_def onEnded_def onLog_def crash_def Let_def
        split: option.splits prod.splits if_splits dest: think_result(1))

lemma step_startedNote: "startedNote (fst (step R host s ev)) = startedNote s"
  by (cases ev)
     (auto simp: step_def onMessage_startedNote thinkSettled_def postSettled_def
        split: fetch_outcome.splits option.splits)

lemma onMessage_renote:
  "startedNote s = None \<Longrightarrow> Publish t r \<in> set (snd (onMessage R host s m)) \<Longrightarrow> r = None"
  by (cases m)
     (auto simp: onMessage_def onInit_def onStarted_def onEnded_def onLog_def crash_def Let_def
        post_def
        split: option.splits prod.splits if_splits dest: think_no_publish)

lemma step_renote:
  "startedNote s = None \<Longrightarrow> Publish t r \<in> set (snd (step R host s ev)) \<Longrightarrow> r = None"
  by (cases ev)
     (auto simp: step_def thinkSettled_def postSettled_def
        split: fetch_outcome.splits option.splits if_splits dest: onMessage_renote)

lemma run_startedNote: "startedNote (fst (run R host s evs)) = startedNote s"
proof (induction evs arbitrary: s)
  case Nil
  show ?case by simp
next
  case (Cons ev evs)
  have "startedNote (fst (run R host (fst (step R host s ev)) evs)) = startedNote s"
    by (simp add: Cons.IH step_startedNote)
  then show ?case by (simp add: split_beta)
qed

lemma run_renote:
  "startedNote s = None \<Longrightarrow> Publish t r \<in> set (snd (run R host s evs)) \<Longrightarrow> r = None"
proof (induction evs arbitrary: s)
  case Nil
  then show ?case by simp
next
  case (Cons ev evs)
  have n1: "startedNote (fst (step R host s ev)) = None"
    by (simp add: step_startedNote Cons.prems(1))
  from Cons.prems(2)
  have "Publish t r \<in> set (snd (step R host s ev))
        \<or> Publish t r \<in> set (snd (run R host (fst (step R host s ev)) evs))"
    by (simp add: split_beta)
  then show ?case
    using step_renote [OF Cons.prems(1)] Cons.IH [OF n1] by blast
qed

subsection \<open>Turns and placements\<close>

lemma onMessage_turn:
  "currentTurn (fst (onMessage R host s m)) = currentTurn s + placements (snd (onMessage R host s m))"
  by (cases m)
     (auto simp: onMessage_def onInit_def onStarted_def onEnded_def onLog_def crash_def Let_def
        post_def placements_def
        split: option.splits prod.splits if_splits dest!: think_placements)

lemma step_turn:
  "currentTurn (fst (step R host s ev)) = currentTurn s + placements (snd (step R host s ev))"
  by (cases ev)
     (auto simp: step_def onMessage_turn thinkSettled_def postSettled_def placements_def
        split: fetch_outcome.splits option.splits)

lemma run_turn:
  "currentTurn (fst (run R host s evs)) = currentTurn s + placements (snd (run R host s evs))"
proof (induction evs arbitrary: s)
  case Nil
  show ?case by (simp add: placements_def)
next
  case (Cons ev evs)
  have "currentTurn (fst (run R host (fst (step R host s ev)) evs))
        = currentTurn s + placements (snd (step R host s ev))
          + placements (snd (run R host (fst (step R host s ev)) evs))"
    by (simp add: Cons.IH step_turn)
  then show ?case by (simp add: split_beta placements_def)
qed

subsection \<open>Where publish requests come from\<close>

lemma think_publishes: "think R s = (s', fx) \<Longrightarrow> filter isPublish fx = []"
  by (auto dest: think_result(4))

lemma onMessage_publishes:
  "(\<And>b. m \<noteq> Ended b) \<Longrightarrow> filter isPublish (snd (onMessage R host s m)) = []"
  by (cases m)
     (auto simp: onMessage_def onInit_def onStarted_def onLog_def crash_def Let_def
        split: option.splits prod.splits if_splits dest!: think_publishes)

lemma step_publishes:
  "\<not> isEndedEvent ev \<Longrightarrow> publishes (snd (step R host s ev)) = 0"
proof (cases ev)
  case (Message m)
  assume "\<not> isEndedEvent ev"
  with Message have "\<And>b. m \<noteq> Ended b" by auto
  then show ?thesis
    using Message by (simp add: step_def publishes_def onMessage_publishes)
next
  case (FetchSettled out)
  then show ?thesis
    by (auto simp: step_def thinkSettled_def publishes_def
          split: fetch_outcome.splits option.splits)
next
  case (PostSettled i failed)
  then show ?thesis by (simp add: step_def postSettled_def publishes_def)
next
  case RejectionReported
  then show ?thesis by (simp add: step_def publishes_def)
qed

lemma step_ended_publishes: "publishes (snd (step R host s (Message (Ended b)))) \<le> 1"
  by (simp add: step_def onMessage_def onEnded_def post_def crash_def publishes_def
        split: option.splits)

lemma step_publishes_bound:
  "publishes (snd (step R host s ev)) \<le> (if isEndedEvent ev then 1 else 0)"
proof (cases "isEndedEvent ev")
  case True
  then obtain b where "ev = Message (Ended b)"
    by (cases ev rule: isEndedEvent.cases) auto
  then show ?thesis using step_ended_publishes [of R host s b] by simp
next
  case False
  then show ?thesis by (simp add: step_publishes)
qed

lemma run_publishes:
  "publishes (snd (run R host s evs)) \<le> length (filter isEndedEvent evs)"
proof (induction evs arbitrary: s)
  case Nil
  show ?case by (simp add: publishes_def)
next
  case (Cons ev evs)
  have "publishes (snd (run R host s (ev # evs)))
        = publishes (snd (step R host s ev))
          + publishes (snd (run R host (fst (step R host s ev)) evs))"
    by (simp add: split_beta publishes_def)
  then show ?case
    using step_publishes_bound [of R host s ev] Cons.IH [of "fst (step R host s ev)"]
    by (simp split: if_splits)
qed

section \<open>The claims\<close>

text \<open>
  C10. The field \<^verbatim>\<open>startedNote\<close> is initialised to \<^verbatim>\<open>null\<close> and no handler assigns it:
  after every sequence of events it still is \<^verbatim>\<open>null\<close>, and every publish request the
  session has sent carries no \<^verbatim>\<open>renoteId\<close>. No announcement of the start is published
  or recorded: no step assigns the field, only an \<^verbatim>\<open>ended\<close> message publishes (a
  \<^verbatim>\<open>started\<close> message publishes nothing), and a run publishes at most once for each
  \<^verbatim>\<open>ended\<close> message in it.
\<close>

theorem C10_startedNote_never_assigned:
  "startedNote (fst (run R host newSession evs)) = None
   \<and> (\<forall>t r. Publish t r \<in> set (snd (run R host newSession evs)) \<longrightarrow> r = None)
   \<and> startedNote (fst (step R host s ev)) = startedNote s
   \<and> (\<not> isEndedEvent ev \<longrightarrow> publishes (snd (step R host s ev)) = 0)
   \<and> publishes (snd (step R host s (Message (Started g)))) = 0
   \<and> publishes (snd (run R host newSession evs)) \<le> length (filter isEndedEvent evs)"
proof -
  have n: "startedNote (newSession :: 'a session) = None"
    by (simp add: newSession_def)
  have "startedNote (fst (run R host newSession evs)) = None"
    by (simp add: run_startedNote n)
  moreover have "\<forall>t r. Publish t r \<in> set (snd (run R host newSession evs)) \<longrightarrow> r = None"
    using run_renote [OF n] by blast
  moreover have "startedNote (fst (step R host s ev)) = startedNote s"
    by (rule step_startedNote)
  moreover have "\<not> isEndedEvent ev \<longrightarrow> publishes (snd (step R host s ev)) = 0"
    by (simp add: step_publishes)
  moreover have "publishes (snd (step R host s (Message (Started g)))) = 0"
    by (simp add: step_publishes)
  moreover have "publishes (snd (run R host newSession evs)) \<le> length (filter isEndedEvent evs)"
    by (rule run_publishes)
  ultimately show ?thesis by blast
qed

theorem C10_startedNote_never_assigned_witness:
  "startedNote (fst (run standIn exHost newSession exFinishedGame)) = None
   \<and> Publish (IWon exOpponentName) None \<in> set (snd (run standIn exHost newSession exFinishedGame))
   \<and> Publish (IWon exOpponentName) (Some ''n1'')
       \<notin> set (snd (run standIn exHost newSession exFinishedGame))
   \<and> publishes (snd (step standIn exHost exConfigured (Message (Started exGame)))) = 0
   \<and> publishes (snd (step standIn exHost exPlaying (exPut None 0))) = 0
   \<and> publishes (snd (run standIn exHost newSession exFinishedGame)) = 1"
proof -
  note at_playing = C10_startedNote_never_assigned [of standIn exHost exFinishedGame exPlaying
      "exPut None 0" exGame]
  note at_configured = C10_startedNote_never_assigned [of standIn exHost exFinishedGame exConfigured
      "exPut None 0" exGame]
  have p: "Publish (IWon exOpponentName) None
           \<in> set (snd (run standIn exHost newSession exFinishedGame))"
    by code_simp
  have e: "\<not> isEndedEvent (exPut None 0)"
    by (simp add: exPut_def)
  have c: "publishes (snd (run standIn exHost newSession exFinishedGame)) = 1"
    by code_simp
  have w1: "startedNote (fst (run standIn exHost newSession exFinishedGame)) = None"
    using at_playing by blast
  have w2: "Publish (IWon exOpponentName) (Some ''n1'')
              \<notin> set (snd (run standIn exHost newSession exFinishedGame))"
    using at_playing by blast
  have w3: "publishes (snd (step standIn exHost exConfigured (Message (Started exGame)))) = 0"
    using at_configured by blast
  have w4: "publishes (snd (step standIn exHost exPlaying (exPut None 0))) = 0"
    using at_playing e by blast
  show ?thesis
    using p c w1 w2 w3 w4 by blast
qed

text \<open>
  C8. A \<^verbatim>\<open>started\<close> message with \<^verbatim>\<open>canPutEverywhere\<close> set ends the session at once: the
  \<^verbatim>\<open>ended\<close> signal goes to the parent and the process exits. No engine is constructed,
  \<^verbatim>\<open>maxTurn\<close> is not computed, \<^verbatim>\<open>think\<close> is not called, and no later event has an
  effect.
\<close>

theorem C8_free_placement_exits:
  assumes "status s = Running" and "canPutEverywhere g"
  shows "run R host s (Message (Started g) # evs)
           = (s\<lparr>game := Some g, status := Exited\<rparr>, [SendEnded, Exit])
         \<and> engine (fst (run R host s (Message (Started g) # evs))) = engine s
         \<and> maxTurn (fst (run R host s (Message (Started g) # evs))) = maxTurn s
         \<and> EngineNew \<notin> set (snd (run R host s (Message (Started g) # evs)))
         \<and> thinkCalls (snd (run R host s (Message (Started g) # evs))) = 0"
proof -
  have st: "step R host s (Message (Started g)) = (s\<lparr>game := Some g, status := Exited\<rparr>, [SendEnded, Exit])"
    using assms by (simp add: step_def onMessage_def onStarted_def)
  have "run R host (s\<lparr>game := Some g, status := Exited\<rparr>) evs
          = (s\<lparr>game := Some g, status := Exited\<rparr>, [])"
    by (rule run_not_running) simp
  with st have "run R host s (Message (Started g) # evs)
           = (s\<lparr>game := Some g, status := Exited\<rparr>, [SendEnded, Exit])"
    by simp
  then show ?thesis by (simp add: thinkCalls_def)
qed

theorem C8_free_placement_exits_witness:
  "status exConfigured = Running \<and> canPutEverywhere exFreeGame
   \<and> snd (run standIn exHost exConfigured
            (Message (Started exFreeGame) # [exPut None 0, exEnded False None]))
       = [SendEnded, Exit]
   \<and> status (fst (run standIn exHost exConfigured
            (Message (Started exFreeGame) # [exPut None 0, exEnded False None]))) = Exited
   \<and> engine (fst (run standIn exHost exConfigured
            (Message (Started exFreeGame) # [exPut None 0, exEnded False None]))) = None"
proof -
  have r: "status exConfigured = Running" by code_simp
  have f: "canPutEverywhere exFreeGame" by code_simp
  have e: "engine exConfigured = None" by code_simp
  show ?thesis
    using r f e
      C8_free_placement_exits [OF r f, of standIn exHost "[exPut None 0, exEnded False None]"]
    by simp
qed

text \<open>
  C1. A log event whose id was applied before must leave \<^verbatim>\<open>currentTurn\<close> and the board as
  they are and must not call \<^verbatim>\<open>think\<close>. \<^verbatim>\<open>onLog\<close> tests \<^verbatim>\<open>appliedOps\<close>, but no
  handler adds an id to it. Evaluated: the put with id \<^verbatim>\<open>a\<close> is delivered to the playing
  session, and delivered again. The list is empty after the first delivery; the second
  delivery places a stone again, counts a second turn and calls \<^verbatim>\<open>think\<close>.
\<close>

theorem C1_redelivered_log_applied_again:
  "appliedOps (fst (run standIn exHost exPlaying [exPut (Some ''a'') 0])) = []
   \<and> currentTurn (fst (run standIn exHost exPlaying [exPut (Some ''a'') 0])) = 1
   \<and> currentTurn (fst (run standIn exHost exPlaying
                          [exPut (Some ''a'') 0, exPut (Some ''a'') 0])) = 2
   \<and> engine (fst (run standIn exHost exPlaying [exPut (Some ''a'') 0, exPut (Some ''a'') 0]))
       \<noteq> engine (fst (run standIn exHost exPlaying [exPut (Some ''a'') 0]))
   \<and> snd (run standIn exHost exPlaying [exPut (Some ''a'') 0, exPut (Some ''a'') 0])
       = [EnginePut (Num 0), EnginePut (Num 0), Fetch ''2120'' ''1'']"
  by code_simp

text \<open>
  C2, as stated: a session whose account is neither player never calls \<^verbatim>\<open>think\<close>. For
  such a session \<^verbatim>\<open>botColor\<close> is \<^verbatim>\<open>false\<close>, the second colour, and the first put that
  leaves the second colour to move calls \<^verbatim>\<open>think\<close>.
\<close>

theorem C2_counterexample_watching_session_thinks:
  "u_id exBot \<noteq> user1Id exWatchGame \<and> u_id exBot \<noteq> user2Id exWatchGame
   \<and> snd (run standIn exHost newSession
            [Message (Init exWatchInit), Message (Started exWatchGame), exPut (Some ''a'') 0])
       = [EngineNew, EnginePut (Num 0), Fetch ''1120'' ''1'']"
  by code_simp

text \<open>
  C2, amended. On \<^verbatim>\<open>started\<close> without free placement, \<^verbatim>\<open>botColor\<close> becomes the boolean
  "the account is the player holding the first colour" and \<^verbatim>\<open>think\<close> is called once
  exactly when it is true. On a put that passes the test of \<^verbatim>\<open>appliedOps\<close>, \<^verbatim>\<open>think\<close> is
  called once exactly when the engine's turn after the put is a colour equal to
  \<^verbatim>\<open>botColor\<close>. For an account that is neither player \<^verbatim>\<open>botColor\<close> is \<^verbatim>\<open>false\<close>.
\<close>

theorem C2_think_triggers:
  "(status s = Running \<and> account s = Some a \<and> \<not> canPutEverywhere g \<longrightarrow>
      botColor (fst (step R host s (Message (Started g)))) = Some (computeBotColor g a)
      \<and> thinkCalls (snd (step R host s (Message (Started g))))
          = (if computeBotColor g a then 1 else 0))
   \<and> (status s = Running \<and> engine s = Some e \<and> game s = Some g'
      \<and> (case log_id l of None \<Rightarrow> True | Some i \<Rightarrow> i \<notin> set (appliedOps s))
      \<and> operation l = ''put'' \<longrightarrow>
      thinkCalls (snd (step R host s (Message (Log l))))
        = (if sameColor (turn R (putStone R e (Num (log_pos l)))) (botColor s) then 1 else 0))
   \<and> (u_id a \<noteq> user1Id g \<and> u_id a \<noteq> user2Id g \<longrightarrow> \<not> computeBotColor g a)"
proof (intro conjI impI)
  assume h: "status s = Running \<and> account s = Some a \<and> \<not> canPutEverywhere g"
  show "botColor (fst (step R host s (Message (Started g)))) = Some (computeBotColor g a)"
    using h by (simp add: step_def onMessage_def onStarted_def Let_def think_def)
  show "thinkCalls (snd (step R host s (Message (Started g))))
          = (if computeBotColor g a then 1 else 0)"
    using h by (simp add: step_def onMessage_def onStarted_def Let_def think_def thinkCalls_def)
next
  assume h: "status s = Running \<and> engine s = Some e \<and> game s = Some g'
      \<and> (case log_id l of None \<Rightarrow> True | Some i \<Rightarrow> i \<notin> set (appliedOps s))
      \<and> operation l = ''put''"
  then show "thinkCalls (snd (step R host s (Message (Log l))))
        = (if sameColor (turn R (putStone R e (Num (log_pos l)))) (botColor s) then 1 else 0)"
    by (simp add: step_def onMessage_def onLog_def Let_def think_def thinkCalls_def)
next
  assume "u_id a \<noteq> user1Id g \<and> u_id a \<noteq> user2Id g"
  then show "\<not> computeBotColor g a"
    by (auto simp: computeBotColor_def)
qed

theorem C2_think_triggers_witness:
  "botColor (fst (step standIn exHost exConfigured (Message (Started exGame)))) = Some True
   \<and> thinkCalls (snd (step standIn exHost exConfigured (Message (Started exGame)))) = 1
   \<and> thinkCalls (snd (step standIn exHost exAfterMove (exPut (Some ''b'') 3))) = 1
   \<and> thinkCalls (snd (step standIn exHost exPlaying (exPut (Some ''a'') 0))) = 0
   \<and> \<not> computeBotColor exWatchGame exBot"
proof -
  have c: "status exConfigured = Running \<and> account exConfigured = Some exBot
           \<and> \<not> canPutEverywhere exGame"
    by code_simp
  have b: "computeBotColor exGame exBot" by code_simp
  have m: "status exAfterMove = Running
           \<and> engine exAfterMove = Some (the (engine exAfterMove))
           \<and> game exAfterMove = Some exGame
           \<and> (case log_id \<lparr>log_id = Some ''b'', operation = ''put'', log_pos = 3\<rparr> of
                None \<Rightarrow> True | Some i \<Rightarrow> i \<notin> set (appliedOps exAfterMove))
           \<and> operation \<lparr>log_id = Some ''b'', operation = ''put'', log_pos = 3\<rparr> = ''put''"
    by code_simp
  have t: "sameColor (turn standIn (putStone standIn (the (engine exAfterMove))
             (Num (log_pos \<lparr>log_id = Some ''b'', operation = ''put'', log_pos = 3\<rparr>))))
             (botColor exAfterMove)"
    by code_simp
  have w: "u_id exBot \<noteq> user1Id exWatchGame \<and> u_id exBot \<noteq> user2Id exWatchGame"
    by code_simp
  have p: "thinkCalls (snd (step standIn exHost exPlaying (exPut (Some ''a'') 0))) = 0"
    by code_simp
  show ?thesis
    using c b m t w p
      C2_think_triggers [where s = exConfigured and a = exBot and g = exGame
        and R = standIn and host = exHost]
      C2_think_triggers [where s = exAfterMove and e = "the (engine exAfterMove)"
        and g' = exGame and R = standIn and host = exHost
        and l = "\<lparr>log_id = Some ''b'', operation = ''put'', log_pos = 3\<rparr>"]
      C2_think_triggers [where a = exBot and g = exWatchGame]
    by (simp add: exPut_def)
qed

text \<open>
  C5, as stated: \<^verbatim>\<open>currentTurn\<close> never exceeds \<^verbatim>\<open>maxTurn\<close>. Nothing compares the two.
  On the board with two free cells \<^verbatim>\<open>maxTurn\<close> is 2, and after three puts with three
  different ids \<^verbatim>\<open>currentTurn\<close> is 3.
\<close>

theorem C5_counterexample_turn_exceeds_max:
  "maxTurn (fst (run standIn exHost exPlaying
                  [exPut (Some ''a'') 0, exPut (Some ''b'') 3, exPut (Some ''c'') 1])) = Some 2
   \<and> currentTurn (fst (run standIn exHost exPlaying
                  [exPut (Some ''a'') 0, exPut (Some ''b'') 3, exPut (Some ''c'') 1])) = 3"
  by code_simp

text \<open>
  C5, amended. After every sequence of events \<^verbatim>\<open>currentTurn\<close> is the number of stones the
  session has placed on the engine since the process began. Event by event, for a running
  session: a put that passes the test of \<^verbatim>\<open>appliedOps\<close> while an engine exists adds one; a
  log event that is no put, or whose id is in \<^verbatim>\<open>appliedOps\<close>, changes nothing; a response
  of the inference service with a successful status and a readable body, to a request in
  flight while an engine exists, adds one; a rejected request, a response without a
  successful status, and a response whose body cannot be read add nothing; no other event
  changes \<^verbatim>\<open>currentTurn\<close>. \<^verbatim>\<open>started\<close> without free placement sets \<^verbatim>\<open>maxTurn\<close> to the
  number of \<^verbatim>\<open>empty\<close> cells of the map minus the number of board cells holding a stone,
  and leaves \<^verbatim>\<open>currentTurn\<close> as it is; \<^verbatim>\<open>maxTurn\<close> bounds nothing.
\<close>

theorem C5_turn_counts_placements:
  "currentTurn (fst (run R host newSession evs)) = placements (snd (run R host newSession evs))
   \<and> (status s = Running \<and> \<not> canPutEverywhere g \<longrightarrow>
        maxTurn (fst (step R host s (Message (Started g))))
          = Some (computeMaxTurn R (newGame R (g_map g)
                    \<lparr>o_isLlotheo = isLlotheo g, o_canPutEverywhere = canPutEverywhere g,
                     o_loopedBoard = loopedBoard g\<rparr>))
        \<and> currentTurn (fst (step R host s (Message (Started g)))) = currentTurn s)
   \<and> (status s = Running \<and> engine s = Some e
        \<and> (case log_id l of None \<Rightarrow> True | Some i \<Rightarrow> i \<notin> set (appliedOps s))
        \<and> operation l = ''put'' \<longrightarrow>
        currentTurn (fst (step R host s (Message (Log l)))) = Suc (currentTurn s)
        \<and> engine (fst (step R host s (Message (Log l))))
            = Some (putStone R e (Num (log_pos l)))
        \<and> placements (snd (step R host s (Message (Log l)))) = 1)
   \<and> (operation l \<noteq> ''put'' \<longrightarrow> step R host s (Message (Log l)) = (s, []))
   \<and> (log_id l = Some i \<and> i \<in> set (appliedOps s) \<longrightarrow>
        step R host s (Message (Log l)) = (s, []))
   \<and> (status s = Running \<and> 0 < inflight s \<and> engine s = Some e \<longrightarrow>
        currentTurn (fst (step R host s (FetchSettled (HttpResponse True st (Some body)))))
          = Suc (currentTurn s)
        \<and> engine (fst (step R host s (FetchSettled (HttpResponse True st (Some body)))))
            = Some (putStone R e (Str body))
        \<and> placements (snd (step R host s (FetchSettled (HttpResponse True st (Some body)))))
            = 1)
   \<and> currentTurn (fst (step R host s (FetchSettled FetchRejected))) = currentTurn s
   \<and> currentTurn (fst (step R host s (FetchSettled (HttpResponse False st b)))) = currentTurn s
   \<and> currentTurn (fst (step R host s (FetchSettled (HttpResponse True st None)))) = currentTurn s
   \<and> (inflight s = 0 \<longrightarrow> step R host s (FetchSettled out) = (s, []))
   \<and> ((\<forall>l'. ev \<noteq> Message (Log l')) \<and> (\<forall>out'. ev \<noteq> FetchSettled out') \<longrightarrow>
        currentTurn (fst (step R host s ev)) = currentTurn s)"
proof (intro conjI impI)
  have "currentTurn (newSession :: 'a session) = 0"
    by (simp add: newSession_def)
  then show "currentTurn (fst (run R host newSession evs))
             = placements (snd (run R host newSession evs))"
    using run_turn [of R host newSession evs] by simp
next
  assume h: "status s = Running \<and> \<not> canPutEverywhere g"
  show "maxTurn (fst (step R host s (Message (Started g))))
          = Some (computeMaxTurn R (newGame R (g_map g)
                    \<lparr>o_isLlotheo = isLlotheo g, o_canPutEverywhere = canPutEverywhere g,
                     o_loopedBoard = loopedBoard g\<rparr>))"
    using h
    by (simp add: step_def onMessage_def onStarted_def Let_def think_def crash_def
          split: option.splits)
  show "currentTurn (fst (step R host s (Message (Started g)))) = currentTurn s"
    using h
    by (simp add: step_def onMessage_def onStarted_def Let_def think_def crash_def
          split: option.splits)
next
  assume h: "status s = Running \<and> engine s = Some e
        \<and> (case log_id l of None \<Rightarrow> True | Some i \<Rightarrow> i \<notin> set (appliedOps s))
        \<and> operation l = ''put''"
  show "currentTurn (fst (step R host s (Message (Log l)))) = Suc (currentTurn s)"
    using h
    by (simp add: step_def onMessage_def onLog_def Let_def think_def crash_def
          split: option.splits)
  show "engine (fst (step R host s (Message (Log l)))) = Some (putStone R e (Num (log_pos l)))"
    using h
    by (simp add: step_def onMessage_def onLog_def Let_def think_def crash_def
          split: option.splits)
  show "placements (snd (step R host s (Message (Log l)))) = 1"
    using h
    by (simp add: step_def onMessage_def onLog_def Let_def think_def crash_def placements_def
          split: option.splits)
next
  assume "operation l \<noteq> ''put''"
  then show "step R host s (Message (Log l)) = (s, [])"
    by (simp add: step_def onMessage_def onLog_def)
next
  assume "log_id l = Some i \<and> i \<in> set (appliedOps s)"
  then show "step R host s (Message (Log l)) = (s, [])"
    by (simp add: step_def onMessage_def onLog_def)
next
  assume h: "status s = Running \<and> 0 < inflight s \<and> engine s = Some e"
  show "currentTurn (fst (step R host s (FetchSettled (HttpResponse True st (Some body)))))
          = Suc (currentTurn s)"
    using h by (simp add: step_def thinkSettled_def)
  show "engine (fst (step R host s (FetchSettled (HttpResponse True st (Some body)))))
            = Some (putStone R e (Str body))"
    using h by (simp add: step_def thinkSettled_def)
  show "placements (snd (step R host s (FetchSettled (HttpResponse True st (Some body))))) = 1"
    using h by (simp add: step_def thinkSettled_def placements_def)
next
  show "currentTurn (fst (step R host s (FetchSettled FetchRejected))) = currentTurn s"
    by (simp add: step_def thinkSettled_def)
  show "currentTurn (fst (step R host s (FetchSettled (HttpResponse False st b)))) = currentTurn s"
    by (simp add: step_def thinkSettled_def)
  show "currentTurn (fst (step R host s (FetchSettled (HttpResponse True st None)))) = currentTurn s"
    by (simp add: step_def thinkSettled_def)
next
  assume "inflight s = 0"
  then show "step R host s (FetchSettled out) = (s, [])"
    by (simp add: step_def)
next
  assume h: "(\<forall>l'. ev \<noteq> Message (Log l')) \<and> (\<forall>out'. ev \<noteq> FetchSettled out')"
  show "currentTurn (fst (step R host s ev)) = currentTurn s"
  proof (cases ev)
    case (Message m)
    with h have "\<And>l'. m \<noteq> Log l'" by auto
    then have "placements (snd (onMessage R host s m)) = 0"
      by (cases m)
         (auto simp: onMessage_def onInit_def onStarted_def onEnded_def crash_def Let_def
            post_def placements_def
            split: option.splits prod.splits if_splits dest!: think_placements)
    then show ?thesis
      using Message onMessage_turn [of R host s m] by (simp add: step_def)
  next
    case (FetchSettled out)
    with h show ?thesis by simp
  next
    case (PostSettled i failed)
    then show ?thesis by (simp add: step_def postSettled_def)
  next
    case RejectionReported
    then show ?thesis by (simp add: step_def)
  qed
qed

theorem C5_turn_counts_placements_witness:
  "currentTurn (fst (run standIn exHost newSession
       [Message (Init exInit), Message (Started exGame), exPut None 0,
        FetchSettled (HttpResponse True 200 (Some ''3''))])) = 2
   \<and> maxTurn (fst (step standIn exHost exAfterMove (Message (Started exGame)))) = Some 2
   \<and> currentTurn (fst (step standIn exHost exAfterMove (Message (Started exGame)))) = 1
   \<and> currentTurn (fst (step standIn exHost exAfterMove (exPut (Some ''b'') 3))) = 2
   \<and> step standIn exHost exAfterMove
        (Message (Log \<lparr>log_id = Some ''b'', operation = ''undo'', log_pos = 3\<rparr>))
       = (exAfterMove, [])
   \<and> step standIn exHost (exAfterMove\<lparr>appliedOps := [''a'']\<rparr>) (exPut (Some ''a'') 0)
       = (exAfterMove\<lparr>appliedOps := [''a'']\<rparr>, [])
   \<and> currentTurn (fst (step standIn exHost exAfterMove
                         (FetchSettled (HttpResponse True 200 (Some ''3''))))) = 2
   \<and> currentTurn (fst (step standIn exHost exAfterMove
                         (FetchSettled (HttpResponse True 200 None)))) = 1
   \<and> step standIn exHost exConfigured (FetchSettled (HttpResponse True 200 (Some ''3'')))
       = (exConfigured, [])
   \<and> currentTurn (fst (step standIn exHost exAfterMove (exEnded False None))) = 1"
proof -
  note at_move = C5_turn_counts_placements [where R = standIn and host = exHost
      and s = exAfterMove and g = exGame and e = "the (engine exAfterMove)"
      and l = "\<lparr>log_id = Some ''b'', operation = ''put'', log_pos = 3\<rparr>" and i = "''b''"
      and st = 200 and body = "''3''" and b = None
      and out = "HttpResponse True 200 (Some ''3'')" and ev = "exEnded False None"
      and evs = "[Message (Init exInit), Message (Started exGame), exPut None 0,
                  FetchSettled (HttpResponse True 200 (Some ''3''))]"]
  note at_undo = C5_turn_counts_placements [where R = standIn and host = exHost
      and s = exAfterMove and g = exGame and e = "the (engine exAfterMove)"
      and l = "\<lparr>log_id = Some ''b'', operation = ''undo'', log_pos = 3\<rparr>" and i = "''b''"
      and st = 200 and body = "''3''" and b = None
      and out = "HttpResponse True 200 (Some ''3'')" and ev = "exEnded False None"
      and evs = "[]"]
  note at_known = C5_turn_counts_placements [where R = standIn and host = exHost
      and s = "exAfterMove\<lparr>appliedOps := [''a'']\<rparr>" and g = exGame
      and e = "the (engine exAfterMove)"
      and l = "\<lparr>log_id = Some ''a'', operation = ''put'', log_pos = 0\<rparr>" and i = "''a''"
      and st = 200 and body = "''3''" and b = None
      and out = "HttpResponse True 200 (Some ''3'')" and ev = "exEnded False None"
      and evs = "[]"]
  note at_idle = C5_turn_counts_placements [where R = standIn and host = exHost
      and s = exConfigured and g = exGame and e = "the (engine exAfterMove)"
      and l = "\<lparr>log_id = Some ''a'', operation = ''put'', log_pos = 0\<rparr>" and i = "''a''"
      and st = 200 and body = "''3''" and b = None
      and out = "HttpResponse True 200 (Some ''3'')" and ev = "exEnded False None"
      and evs = "[]"]
  have p: "placements (snd (run standIn exHost newSession
       [Message (Init exInit), Message (Started exGame), exPut None 0,
        FetchSettled (HttpResponse True 200 (Some ''3''))])) = 2"
    by code_simp
  have h: "status exAfterMove = Running \<and> \<not> canPutEverywhere exGame"
    by code_simp
  have m: "computeMaxTurn standIn (newGame standIn (g_map exGame)
             \<lparr>o_isLlotheo = isLlotheo exGame, o_canPutEverywhere = canPutEverywhere exGame,
              o_loopedBoard = loopedBoard exGame\<rparr>) = 2"
    by code_simp
  have c: "currentTurn exAfterMove = 1"
    by code_simp
  have a: "status exAfterMove = Running
           \<and> engine exAfterMove = Some (the (engine exAfterMove))
           \<and> (case log_id \<lparr>log_id = Some ''b'', operation = ''put'', log_pos = 3\<rparr> of
                None \<Rightarrow> True | Some i \<Rightarrow> i \<notin> set (appliedOps exAfterMove))
           \<and> operation \<lparr>log_id = Some ''b'', operation = ''put'', log_pos = 3\<rparr> = ''put''"
    by code_simp
  have f: "status exAfterMove = Running \<and> 0 < inflight exAfterMove
           \<and> engine exAfterMove = Some (the (engine exAfterMove))"
    by code_simp
  have z: "inflight exConfigured = 0"
    by code_simp
  have u: "operation \<lparr>log_id = Some ''b'', operation = ''undo'', log_pos = 3\<rparr> \<noteq> ''put''"
    by simp
  have k: "log_id \<lparr>log_id = Some ''a'', operation = ''put'', log_pos = 0\<rparr> = Some ''a''
           \<and> ''a'' \<in> set (appliedOps (exAfterMove\<lparr>appliedOps := [''a'']\<rparr>))"
    by simp
  have v: "(\<forall>l'. exEnded False None \<noteq> Message (Log l'))
           \<and> (\<forall>out'. exEnded False None \<noteq> FetchSettled out')"
    by (simp add: exEnded_def)
  have w1: "currentTurn (fst (run standIn exHost newSession
       [Message (Init exInit), Message (Started exGame), exPut None 0,
        FetchSettled (HttpResponse True 200 (Some ''3''))])) = 2"
    using at_move p by simp
  have w2: "maxTurn (fst (step standIn exHost exAfterMove (Message (Started exGame)))) = Some 2
            \<and> currentTurn (fst (step standIn exHost exAfterMove (Message (Started exGame)))) = 1"
    using at_move h m c by simp
  have "currentTurn (fst (step standIn exHost exAfterMove
          (Message (Log \<lparr>log_id = Some ''b'', operation = ''put'', log_pos = 3\<rparr>))))
        = Suc (currentTurn exAfterMove)"
    using at_move a by blast
  then have w3: "currentTurn (fst (step standIn exHost exAfterMove (exPut (Some ''b'') 3))) = 2"
    by (simp add: c exPut_def)
  have w4: "step standIn exHost exAfterMove
        (Message (Log \<lparr>log_id = Some ''b'', operation = ''undo'', log_pos = 3\<rparr>))
       = (exAfterMove, [])"
    using at_undo u by blast
  have "step standIn exHost (exAfterMove\<lparr>appliedOps := [''a'']\<rparr>)
          (Message (Log \<lparr>log_id = Some ''a'', operation = ''put'', log_pos = 0\<rparr>))
       = (exAfterMove\<lparr>appliedOps := [''a'']\<rparr>, [])"
    using at_known k by blast
  then have w5: "step standIn exHost (exAfterMove\<lparr>appliedOps := [''a'']\<rparr>)
                   (exPut (Some ''a'') 0)
       = (exAfterMove\<lparr>appliedOps := [''a'']\<rparr>, [])"
    by (simp add: exPut_def)
  have "currentTurn (fst (step standIn exHost exAfterMove
                         (FetchSettled (HttpResponse True 200 (Some ''3'')))))
        = Suc (currentTurn exAfterMove)"
    using at_move f by blast
  then have w6: "currentTurn (fst (step standIn exHost exAfterMove
                         (FetchSettled (HttpResponse True 200 (Some ''3''))))) = 2"
    by (simp add: c)
  have "currentTurn (fst (step standIn exHost exAfterMove
                         (FetchSettled (HttpResponse True 200 None)))) = currentTurn exAfterMove"
    using at_move by blast
  then have w7: "currentTurn (fst (step standIn exHost exAfterMove
                         (FetchSettled (HttpResponse True 200 None)))) = 1"
    by (simp add: c)
  have w8: "step standIn exHost exConfigured (FetchSettled (HttpResponse True 200 (Some ''3'')))
       = (exConfigured, [])"
    using at_idle z by blast
  have "currentTurn (fst (step standIn exHost exAfterMove (exEnded False None)))
        = currentTurn exAfterMove"
    using at_move v by blast
  then have w9: "currentTurn (fst (step standIn exHost exAfterMove (exEnded False None))) = 1"
    by (simp add: c)
  show ?thesis
    using w1 w2 w3 w4 w5 w6 w7 w8 w9 by blast
qed

text \<open>
  C6. A malformed or out-of-range response must be logged as a failure and leave the
  engine and \<^verbatim>\<open>currentTurn\<close> as they are. \<^verbatim>\<open>think\<close> passes the text of every response
  with a successful status to \<^verbatim>\<open>putStone\<close> and counts a turn; the check of
  \<^verbatim>\<open>executeCurlCommand\<close> is not applied. Evaluated at the bodies \<^verbatim>\<open>abc\<close> and \<^verbatim>\<open>64\<close>.
\<close>

theorem C6_unvalidated_response_applied:
  "snd (step standIn exHost exPlaying (FetchSettled (HttpResponse True 200 (Some ''abc''))))
     = [ConsoleLog ''abc'', EnginePut (Str ''abc'')]
   \<and> currentTurn (fst (step standIn exHost exPlaying
                         (FetchSettled (HttpResponse True 200 (Some ''abc'')))))
       = Suc (currentTurn exPlaying)
   \<and> snd (step standIn exHost exPlaying (FetchSettled (HttpResponse True 200 (Some ''64''))))
       = [ConsoleLog ''64'', EnginePut (Str ''64'')]
   \<and> currentTurn (fst (step standIn exHost exPlaying
                         (FetchSettled (HttpResponse True 200 (Some ''64'')))))
       = Suc (currentTurn exPlaying)"
  by code_simp

text \<open>The part of C6 that the code keeps: a rejected request and a response without a
  successful status are logged, and nothing of the session changes but the count of
  suspended calls.\<close>

lemma think_failure_recovered:
  assumes "status s = Running" and "0 < inflight s"
  shows "step R host s (FetchSettled FetchRejected)
           = (s\<lparr>inflight := inflight s - 1\<rparr>, [ConsoleError FetchFailure])"
    and "step R host s (FetchSettled (HttpResponse False st body))
           = (s\<lparr>inflight := inflight s - 1\<rparr>, [ConsoleError (HttpError st)])"
  using assms by (simp_all add: step_def thinkSettled_def)

text \<open>
  C7. The flag of exhibition play must select the exhibition variant of each text.
  \<^verbatim>\<open>onEnded\<close> reads \<^verbatim>\<open>this.isSettai\<close>, which the class does not define: whatever the
  session and the result, none of the four exhibition texts is chosen. Evaluated at a
  surrender: the text is \<^verbatim>\<open>youSurrendered\<close>.
\<close>

theorem C7_exhibition_text_never_chosen:
  "map_option isSettaiText (endedText host s m) \<noteq> Some True
   \<and> endedText exHost exPlaying \<lparr>surrendered = True, winnerId = None\<rparr>
       = Some (YouSurrendered exOpponentName)"
proof -
  have "map_option isSettaiText (endedText host s m) \<noteq> Some True"
    by (simp add: endedText_def isSettai_def split: option.splits)
  moreover have "endedText exHost exPlaying \<lparr>surrendered = True, winnerId = None\<rparr>
       = Some (YouSurrendered exOpponentName)"
    by code_simp
  ultimately show ?thesis by simp
qed

text \<open>
  C9, as stated: at most one \<^verbatim>\<open>think\<close> call is in flight. \<^verbatim>\<open>think\<close> tests nothing
  before it sends its request. The session holding the first colour sends one request on
  \<^verbatim>\<open>started\<close> and a second one after the second put, the first still being in flight;
  when both are answered, both answers are placed.
\<close>

theorem C9_counterexample_two_requests_in_flight:
  "inflight (fst (run standIn exHost newSession
       [Message (Init exInit), Message (Started exGame),
        exPut (Some ''a'') 0, exPut (Some ''b'') 3])) = 2
   \<and> snd (run standIn exHost newSession
       [Message (Init exInit), Message (Started exGame),
        exPut (Some ''a'') 0, exPut (Some ''b'') 3,
        FetchSettled (HttpResponse True 200 (Some ''1'')),
        FetchSettled (HttpResponse True 200 (Some ''1''))])
     = [EngineNew, Fetch ''0120'' ''1'', EnginePut (Num 0), EnginePut (Num 3),
        Fetch ''1122'' ''1'', ConsoleLog ''1'', EnginePut (Str ''1''),
        ConsoleLog ''1'', EnginePut (Str ''1'')]"
  by code_simp

text \<open>
  C9, amended. Every trigger sends its own request, whatever the number of requests in
  flight: a \<^verbatim>\<open>started\<close> for the player of the first colour, and a put after which the
  engine's turn equals \<^verbatim>\<open>botColor\<close>, each raise the number of requests in flight by one
  and send one request. Every response with a successful status and a readable body, to a
  request in flight, is logged, placed on the engine and counted as a turn when it
  arrives, whatever the number of requests in flight; it lowers that number by one.
\<close>

theorem C9_every_trigger_sends_request:
  "(status s = Running \<and> account s = Some a \<and> \<not> canPutEverywhere g \<and> computeBotColor g a \<longrightarrow>
      inflight (fst (step R host s (Message (Started g)))) = Suc (inflight s)
      \<and> thinkCalls (snd (step R host s (Message (Started g)))) = 1)
   \<and> (status s = Running \<and> engine s = Some e \<and> game s = Some g'
      \<and> (case log_id l of None \<Rightarrow> True | Some i \<Rightarrow> i \<notin> set (appliedOps s))
      \<and> operation l = ''put''
      \<and> sameColor (turn R (putStone R e (Num (log_pos l)))) (botColor s) \<longrightarrow>
      inflight (fst (step R host s (Message (Log l)))) = Suc (inflight s)
      \<and> thinkCalls (snd (step R host s (Message (Log l)))) = 1)
   \<and> (status s = Running \<and> 0 < inflight s \<and> engine s = Some e \<longrightarrow>
      step R host s (FetchSettled (HttpResponse True st (Some body)))
        = (s\<lparr>inflight := inflight s - 1, engine := Some (putStone R e (Str body)),
              currentTurn := Suc (currentTurn s)\<rparr>,
           [ConsoleLog body, EnginePut (Str body)]))"
proof (intro conjI impI)
  assume h: "status s = Running \<and> account s = Some a \<and> \<not> canPutEverywhere g
             \<and> computeBotColor g a"
  show "inflight (fst (step R host s (Message (Started g)))) = Suc (inflight s)"
    using h by (simp add: step_def onMessage_def onStarted_def Let_def think_def)
  show "thinkCalls (snd (step R host s (Message (Started g)))) = 1"
    using h by (simp add: step_def onMessage_def onStarted_def Let_def think_def thinkCalls_def)
next
  assume h: "status s = Running \<and> engine s = Some e \<and> game s = Some g'
      \<and> (case log_id l of None \<Rightarrow> True | Some i \<Rightarrow> i \<notin> set (appliedOps s))
      \<and> operation l = ''put''
      \<and> sameColor (turn R (putStone R e (Num (log_pos l)))) (botColor s)"
  show "inflight (fst (step R host s (Message (Log l)))) = Suc (inflight s)"
    using h by (simp add: step_def onMessage_def onLog_def Let_def think_def)
  show "thinkCalls (snd (step R host s (Message (Log l)))) = 1"
    using h by (simp add: step_def onMessage_def onLog_def Let_def think_def thinkCalls_def)
next
  assume "status s = Running \<and> 0 < inflight s \<and> engine s = Some e"
  then show "step R host s (FetchSettled (HttpResponse True st (Some body)))
        = (s\<lparr>inflight := inflight s - 1, engine := Some (putStone R e (Str body)),
              currentTurn := Suc (currentTurn s)\<rparr>,
           [ConsoleLog body, EnginePut (Str body)])"
    by (simp add: step_def thinkSettled_def)
qed

theorem C9_every_trigger_sends_request_witness:
  "inflight exPlaying = 1
   \<and> inflight (fst (step standIn exHost exPlaying (Message (Started exGame)))) = 2
   \<and> inflight exAfterMove = 1
   \<and> inflight (fst (step standIn exHost exAfterMove (exPut (Some ''b'') 3))) = 2
   \<and> thinkCalls (snd (step standIn exHost exAfterMove (exPut (Some ''b'') 3))) = 1
   \<and> inflight exTwoInFlight = 2
   \<and> snd (step standIn exHost exTwoInFlight (FetchSettled (HttpResponse True 200 (Some ''1''))))
       = [ConsoleLog ''1'', EnginePut (Str ''1'')]
   \<and> inflight (fst (step standIn exHost exTwoInFlight
                      (FetchSettled (HttpResponse True 200 (Some ''1''))))) = 1"
proof -
  have i: "inflight exPlaying = 1 \<and> inflight exAfterMove = 1 \<and> inflight exTwoInFlight = 2"
    by code_simp
  have c: "status exPlaying = Running \<and> account exPlaying = Some exBot
           \<and> \<not> canPutEverywhere exGame \<and> computeBotColor exGame exBot"
    by code_simp
  have m: "status exAfterMove = Running
           \<and> engine exAfterMove = Some (the (engine exAfterMove))
           \<and> game exAfterMove = Some exGame
           \<and> (case log_id \<lparr>log_id = Some ''b'', operation = ''put'', log_pos = 3\<rparr> of
                None \<Rightarrow> True | Some i \<Rightarrow> i \<notin> set (appliedOps exAfterMove))
           \<and> operation \<lparr>log_id = Some ''b'', operation = ''put'', log_pos = 3\<rparr> = ''put''
           \<and> sameColor (turn standIn (putStone standIn (the (engine exAfterMove))
               (Num (log_pos \<lparr>log_id = Some ''b'', operation = ''put'', log_pos = 3\<rparr>))))
               (botColor exAfterMove)"
    by code_simp
  have t: "status exTwoInFlight = Running \<and> 0 < inflight exTwoInFlight
           \<and> engine exTwoInFlight = Some (the (engine exTwoInFlight))"
    by code_simp
  show ?thesis
    using i c m t
      C9_every_trigger_sends_request [where s = exPlaying and a = exBot and g = exGame
        and R = standIn and host = exHost]
      C9_every_trigger_sends_request [where s = exAfterMove and e = "the (engine exAfterMove)"
        and g' = exGame and R = standIn and host = exHost
        and l = "\<lparr>log_id = Some ''b'', operation = ''put'', log_pos = 3\<rparr>"]
      C9_every_trigger_sends_request [where s = exTwoInFlight
        and e = "the (engine exTwoInFlight)" and R = standIn and host = exHost
        and st = 200 and body = "''1''"]
    by (simp add: exPut_def)
qed

text \<open>
  C4, as stated: a second \<^verbatim>\<open>ended\<close> event is a no-op. \<^verbatim>\<open>onEnded\<close> has no guard, and the
  process exits only when the publish request of the first event has returned. A second
  event handled before that sends the signal and publishes again.
\<close>

theorem C4_counterexample_second_ended_repeats:
  "snd (run standIn exHost exPlaying [exEnded False (Some ''bot''), exEnded False (Some ''bot'')])
     = [SendEnded, Publish (IWon exOpponentName) None,
        SendEnded, Publish (IWon exOpponentName) None]
   \<and> status (fst (run standIn exHost exPlaying [exEnded False (Some ''bot'')])) = Running"
  by code_simp

text \<open>
  C4, amended. Every \<^verbatim>\<open>ended\<close> event the running session handles sends the \<^verbatim>\<open>ended\<close>
  signal first, exactly once, and leaves the process running; this holds for every state,
  also one in which the handler then throws. When the text and the publish setting can be
  read, the handler sends one publish request if publishing is allowed and none otherwise,
  and is then suspended; when they cannot be read it publishes nothing. The process exits
  when a suspended call resumes, which sends no signal and publishes nothing. After that
  exit no event has an effect: a later \<^verbatim>\<open>ended\<close> event is a no-op.
\<close>

theorem C4_ended_until_exit:
  "(status s = Running \<and> endedText host s m = Some t \<and> allowPost s = Some allowed \<longrightarrow>
      step R host s (Message (Ended m))
        = (s\<lparr>pendingPosts := pendingPosts s @ [allowed]\<rparr>,
           SendEnded # (if allowed then [Publish t (map_option note_id (startedNote s))] else [])))
   \<and> (status s = Running \<longrightarrow>
        hd (snd (step R host s (Message (Ended m)))) = SendEnded
        \<and> signals (snd (step R host s (Message (Ended m)))) = 1
        \<and> status (fst (step R host s (Message (Ended m)))) = Running
        \<and> publishes (snd (step R host s (Message (Ended m))))
            = (if endedText host s m \<noteq> None \<and> allowPost s = Some True then 1 else 0))
   \<and> (status s = Running \<and> i < length (pendingPosts s) \<longrightarrow>
        status (fst (step R host s (PostSettled i failed))) = Exited
        \<and> signals (snd (step R host s (PostSettled i failed))) = 0
        \<and> publishes (snd (step R host s (PostSettled i failed))) = 0
        \<and> last (snd (step R host s (PostSettled i failed))) = Exit)
   \<and> (status s = Exited \<longrightarrow> run R host s evs = (s, []))"
proof (intro conjI impI)
  assume "status s = Running \<and> endedText host s m = Some t \<and> allowPost s = Some allowed"
  then show "step R host s (Message (Ended m))
        = (s\<lparr>pendingPosts := pendingPosts s @ [allowed]\<rparr>,
           SendEnded # (if allowed then [Publish t (map_option note_id (startedNote s))] else []))"
    by (simp add: step_def onMessage_def onEnded_def post_def)
next
  assume h: "status s = Running"
  show "hd (snd (step R host s (Message (Ended m)))) = SendEnded"
    using h
    by (simp add: step_def onMessage_def onEnded_def post_def crash_def split: option.splits)
  show "signals (snd (step R host s (Message (Ended m)))) = 1"
    using h
    by (simp add: step_def onMessage_def onEnded_def post_def crash_def signals_def
          split: option.splits)
  show "status (fst (step R host s (Message (Ended m)))) = Running"
    using h
    by (simp add: step_def onMessage_def onEnded_def post_def crash_def split: option.splits)
  show "publishes (snd (step R host s (Message (Ended m))))
          = (if endedText host s m \<noteq> None \<and> allowPost s = Some True then 1 else 0)"
    using h
    by (auto simp: step_def onMessage_def onEnded_def post_def crash_def publishes_def
          split: option.splits)
next
  assume h: "status s = Running \<and> i < length (pendingPosts s)"
  show "status (fst (step R host s (PostSettled i failed))) = Exited"
    using h by (simp add: step_def postSettled_def)
  show "signals (snd (step R host s (PostSettled i failed))) = 0"
    using h by (simp add: step_def postSettled_def signals_def)
  show "publishes (snd (step R host s (PostSettled i failed))) = 0"
    using h by (simp add: step_def postSettled_def publishes_def)
  show "last (snd (step R host s (PostSettled i failed))) = Exit"
    using h by (simp add: step_def postSettled_def)
next
  assume "status s = Exited"
  then have "status s \<noteq> Running" by simp
  then show "run R host s evs = (s, [])"
    by (rule run_not_running)
qed

theorem C4_ended_until_exit_witness:
  "snd (step standIn exHost exPlaying (exEnded False (Some ''bot'')))
     = [SendEnded, Publish (IWon exOpponentName) None]
   \<and> signals (snd (step standIn exHost newSession (exEnded False (Some ''bot'')))) = 1
   \<and> publishes (snd (step standIn exHost newSession (exEnded False (Some ''bot'')))) = 0
   \<and> status (fst (step standIn exHost newSession (exEnded False (Some ''bot'')))) = Running
   \<and> status (fst (step standIn exHost exEnding (PostSettled 0 False))) = Exited
   \<and> run standIn exHost (fst (step standIn exHost exEnding (PostSettled 0 False)))
       [exEnded False (Some ''bot'')]
     = (fst (step standIn exHost exEnding (PostSettled 0 False)), [])"
proof -
  note at_playing = C4_ended_until_exit [where s = exPlaying and host = exHost
      and t = "IWon exOpponentName"
      and m = "\<lparr>surrendered = False, winnerId = Some ''bot''\<rparr>" and allowed = True
      and R = standIn and i = 0 and failed = False and evs = "[]"]
  note at_new = C4_ended_until_exit [where s = newSession and host = exHost
      and t = "IWon exOpponentName"
      and m = "\<lparr>surrendered = False, winnerId = Some ''bot''\<rparr>" and allowed = True
      and R = standIn and i = 0 and failed = False and evs = "[]"]
  note at_ending = C4_ended_until_exit [where s = exEnding and host = exHost
      and t = "IWon exOpponentName"
      and m = "\<lparr>surrendered = False, winnerId = Some ''bot''\<rparr>" and allowed = True
      and R = standIn and i = 0 and failed = False and evs = "[]"]
  note at_exited = C4_ended_until_exit [where R = standIn and host = exHost
      and s = "fst (step standIn exHost exEnding (PostSettled 0 False))"
      and t = "IWon exOpponentName"
      and m = "\<lparr>surrendered = False, winnerId = Some ''bot''\<rparr>" and allowed = True
      and i = 0 and failed = False and evs = "[exEnded False (Some ''bot'')]"]
  have a: "status exPlaying = Running
           \<and> endedText exHost exPlaying \<lparr>surrendered = False, winnerId = Some ''bot''\<rparr>
               = Some (IWon exOpponentName)
           \<and> allowPost exPlaying = Some True"
    by code_simp
  have n: "startedNote exPlaying = None"
    by code_simp
  have r: "status (newSession :: stand_in session) = Running"
    by (simp add: newSession_def)
  have u: "endedText exHost (newSession :: stand_in session)
             \<lparr>surrendered = False, winnerId = Some ''bot''\<rparr> = None"
    by (simp add: endedText_def newSession_def)
  have e: "status exEnding = Running \<and> 0 < length (pendingPosts exEnding)"
    by code_simp
  have "step standIn exHost exPlaying
          (Message (Ended \<lparr>surrendered = False, winnerId = Some ''bot''\<rparr>))
        = (exPlaying\<lparr>pendingPosts := pendingPosts exPlaying @ [True]\<rparr>,
           SendEnded # (if True then [Publish (IWon exOpponentName)
                                        (map_option note_id (startedNote exPlaying))] else []))"
    using at_playing a by blast
  then have w1: "snd (step standIn exHost exPlaying (exEnded False (Some ''bot'')))
     = [SendEnded, Publish (IWon exOpponentName) None]"
    by (simp add: n exEnded_def)
  have "signals (snd (step standIn exHost newSession
                  (Message (Ended \<lparr>surrendered = False, winnerId = Some ''bot''\<rparr>)))) = 1
        \<and> status (fst (step standIn exHost newSession
                  (Message (Ended \<lparr>surrendered = False, winnerId = Some ''bot''\<rparr>)))) = Running
        \<and> publishes (snd (step standIn exHost newSession
                  (Message (Ended \<lparr>surrendered = False, winnerId = Some ''bot''\<rparr>))))
            = (if endedText exHost (newSession :: stand_in session)
                    \<lparr>surrendered = False, winnerId = Some ''bot''\<rparr> \<noteq> None
                  \<and> allowPost (newSession :: stand_in session) = Some True then 1 else 0)"
    using at_new r by blast
  then have w2: "signals (snd (step standIn exHost newSession (exEnded False (Some ''bot'')))) = 1
        \<and> publishes (snd (step standIn exHost newSession (exEnded False (Some ''bot'')))) = 0
        \<and> status (fst (step standIn exHost newSession (exEnded False (Some ''bot'')))) = Running"
    by (simp add: u exEnded_def)
  have w3: "status (fst (step standIn exHost exEnding (PostSettled 0 False))) = Exited"
    using at_ending e by blast
  have w4: "run standIn exHost (fst (step standIn exHost exEnding (PostSettled 0 False)))
       [exEnded False (Some ''bot'')]
     = (fst (step standIn exHost exEnding (PostSettled 0 False)), [])"
    using at_exited w3 by blast
  show ?thesis
    using w1 w2 w3 w4 by blast
qed

subsection \<open>Reading digits\<close>

lemma isDigit_not_space: "isDigit c \<Longrightarrow> \<not> isWhiteSpace c"
  by (auto simp: isDigit_def isWhiteSpace_def)

lemma isDigit_not_sign: "isDigit c \<Longrightarrow> c \<noteq> minusSign \<and> c \<noteq> plusSign"
  by (auto simp: isDigit_def minusSign_def plusSign_def)

lemma sign_not_space: "\<not> isWhiteSpace minusSign \<and> \<not> isWhiteSpace plusSign"
  by (simp add: isWhiteSpace_def minusSign_def plusSign_def)

lemma digitValue_nonneg: "isDigit c \<Longrightarrow> 0 \<le> digitValue c"
  by (simp add: isDigit_def digitValue_def)

lemma foldl_digits_nonneg:
  "list_all isDigit ds \<Longrightarrow> 0 \<le> a \<Longrightarrow> 0 \<le> foldl (\<lambda>a c. 10 * a + digitValue c) a ds"
proof (induction ds arbitrary: a)
  case Nil
  then show ?case by simp
next
  case (Cons d ds)
  have "0 \<le> 10 * a + digitValue d"
    using Cons.prems digitValue_nonneg [of d] by simp
  then show ?case
    using Cons.IH [of "10 * a + digitValue d"] Cons.prems(1) by simp
qed

lemma decimalValue_nonneg: "list_all isDigit ds \<Longrightarrow> 0 \<le> decimalValue ds"
  using foldl_digits_nonneg [of ds 0] by (simp add: decimalValue_def)

lemma dropWhile_unchanged: "xs = [] \<or> \<not> P (hd xs) \<Longrightarrow> dropWhile P xs = xs"
  by (cases xs) auto

lemma dropWhile_space_prefix:
  assumes "list_all isWhiteSpace ws" and "xs = [] \<or> \<not> isWhiteSpace (hd xs)"
  shows "dropWhile isWhiteSpace (ws @ xs) = xs"
proof -
  have "dropWhile isWhiteSpace (ws @ xs) = dropWhile isWhiteSpace xs"
    using assms(1) by (simp add: list_all_iff dropWhile_append2)
  then show ?thesis
    using assms(2) by (simp add: dropWhile_unchanged)
qed

lemma takeWhile_digit_prefix:
  assumes "list_all isDigit ds" and "rest = [] \<or> \<not> isDigit (hd rest)"
  shows "takeWhile isDigit (ds @ rest) = ds"
proof -
  have "takeWhile isDigit rest = []"
    using assms(2) by (cases rest) auto
  then show ?thesis
    using assms(1) by (simp add: list_all_iff takeWhile_append2)
qed

lemma trim_shape:
  assumes "list_all isWhiteSpace ws" and "list_all isWhiteSpace ws'"
    and "body = [] \<or> (\<not> isWhiteSpace (hd body) \<and> \<not> isWhiteSpace (last body))"
  shows "trim (ws @ body @ ws') = body"
proof (cases "body = []")
  case True
  have "list_all isWhiteSpace (ws @ ws')"
    using assms(1,2) by simp
  then have e: "dropWhile isWhiteSpace (ws @ ws') = []"
    by (simp add: list_all_iff)
  show ?thesis
    by (simp add: trim_def True e)
next
  case False
  then have b: "\<not> isWhiteSpace (hd body)" and e: "\<not> isWhiteSpace (last body)"
    using assms(3) by simp_all
  have "body @ ws' = [] \<or> \<not> isWhiteSpace (hd (body @ ws'))"
    using False b by simp
  then have front: "dropWhile isWhiteSpace (ws @ body @ ws') = body @ ws'"
    using assms(1) by (rule dropWhile_space_prefix [rotated])
  have "rev body = [] \<or> \<not> isWhiteSpace (hd (rev body))"
    using False e by (simp add: hd_rev)
  moreover have "list_all isWhiteSpace (rev ws')"
    using assms(2) by (simp add: list_all_iff)
  ultimately have "dropWhile isWhiteSpace (rev ws' @ rev body) = rev body"
    by (rule dropWhile_space_prefix [rotated])
  then show ?thesis
    by (simp add: trim_def front)
qed

lemma parseInt_unsigned:
  assumes "list_all isWhiteSpace ws" and "ds \<noteq> []" and "list_all isDigit ds"
    and "rest = [] \<or> \<not> isDigit (hd rest)"
  shows "parseInt (ws @ ds @ rest) = Some (decimalValue ds)"
proof -
  obtain d r where ds: "ds = d # r" using assms(2) by (cases ds) auto
  have d: "isDigit d" and r: "list_all isDigit r" using assms(3) ds by simp_all
  have "d # r @ rest = [] \<or> \<not> isWhiteSpace (hd (d # r @ rest))"
    using d by (simp add: isDigit_not_space)
  then have y: "dropWhile isWhiteSpace (ws @ d # r @ rest) = d # r @ rest"
    by (rule dropWhile_space_prefix [OF assms(1)])
  have t: "takeWhile isDigit (r @ rest) = r"
    by (rule takeWhile_digit_prefix [OF r assms(4)])
  have "parseInt (ws @ d # r @ rest) = Some (decimalValue (d # r))"
    unfolding parseInt_def Let_def y
    using d isDigit_not_sign [OF d] by (simp add: t)
  then show ?thesis by (simp add: ds)
qed

lemma parseInt_signed:
  assumes "list_all isWhiteSpace ws" and "ds \<noteq> []" and "list_all isDigit ds"
    and "rest = [] \<or> \<not> isDigit (hd rest)"
  shows "parseInt (ws @ minusSign # ds @ rest) = Some (- decimalValue ds)"
    and "parseInt (ws @ plusSign # ds @ rest) = Some (decimalValue ds)"
proof -
  have t: "takeWhile isDigit (ds @ rest) = ds"
    by (rule takeWhile_digit_prefix [OF assms(3,4)])
  have "minusSign # ds @ rest = [] \<or> \<not> isWhiteSpace (hd (minusSign # ds @ rest))"
    using sign_not_space by simp
  then have m: "dropWhile isWhiteSpace (ws @ minusSign # ds @ rest) = minusSign # ds @ rest"
    by (rule dropWhile_space_prefix [OF assms(1)])
  have "plusSign # ds @ rest = [] \<or> \<not> isWhiteSpace (hd (plusSign # ds @ rest))"
    using sign_not_space by simp
  then have p: "dropWhile isWhiteSpace (ws @ plusSign # ds @ rest) = plusSign # ds @ rest"
    by (rule dropWhile_space_prefix [OF assms(1)])
  show "parseInt (ws @ minusSign # ds @ rest) = Some (- decimalValue ds)"
    unfolding parseInt_def Let_def m
    using assms(2) by (simp add: t)
  have "plusSign \<noteq> minusSign"
    by (simp add: plusSign_def minusSign_def)
  then show "parseInt (ws @ plusSign # ds @ rest) = Some (decimalValue ds)"
    unfolding parseInt_def Let_def p
    using assms(2) by (simp add: t)
qed

lemma parseInt_sign_only:
  assumes "list_all isWhiteSpace ws" and "rest = [] \<or> \<not> isDigit (hd rest)"
  shows "parseInt (ws @ minusSign # rest) = None" and "parseInt (ws @ plusSign # rest) = None"
proof -
  have t: "takeWhile isDigit rest = []"
    using assms(2) by (cases rest) auto
  have "minusSign # rest = [] \<or> \<not> isWhiteSpace (hd (minusSign # rest))"
    using sign_not_space by simp
  then have m: "dropWhile isWhiteSpace (ws @ minusSign # rest) = minusSign # rest"
    by (rule dropWhile_space_prefix [OF assms(1)])
  have "plusSign # rest = [] \<or> \<not> isWhiteSpace (hd (plusSign # rest))"
    using sign_not_space by simp
  then have p: "dropWhile isWhiteSpace (ws @ plusSign # rest) = plusSign # rest"
    by (rule dropWhile_space_prefix [OF assms(1)])
  show "parseInt (ws @ minusSign # rest) = None"
    unfolding parseInt_def Let_def m by (simp add: t)
  show "parseInt (ws @ plusSign # rest) = None"
    unfolding parseInt_def Let_def p by (simp add: t)
qed

lemma parseInt_no_digit:
  assumes "list_all isWhiteSpace ws"
    and "rest = [] \<or> (\<not> isDigit (hd rest) \<and> \<not> isWhiteSpace (hd rest)
                       \<and> hd rest \<noteq> minusSign \<and> hd rest \<noteq> plusSign)"
  shows "parseInt (ws @ rest) = None"
proof -
  have "rest = [] \<or> \<not> isWhiteSpace (hd rest)"
    using assms(2) by blast
  then have y: "dropWhile isWhiteSpace (ws @ rest) = rest"
    by (rule dropWhile_space_prefix [OF assms(1)])
  show ?thesis
  proof (cases rest)
    case Nil
    show ?thesis
      unfolding parseInt_def Let_def y by (simp add: Nil)
  next
    case (Cons c r)
    then have "\<not> isDigit c \<and> c \<noteq> minusSign \<and> c \<noteq> plusSign"
      using assms(2) by simp
    then show ?thesis
      unfolding parseInt_def Let_def y by (simp add: Cons)
  qed
qed

lemmas decode_defs =
  executeCurlCommand_def trim_def parseInt_def isDigit_def isWhiteSpace_def decimalValue_def
  digitValue_def minusSign_def plusSign_def ascii_def

text \<open>
  C3, as stated: a body that is no integer and an integer out of range fail with two
  distinct kinds of error. The only decoder of the source, \<^verbatim>\<open>executeCurlCommand\<close>,
  throws the same error, "Invalid response from server" followed by the output, for
  \<^verbatim>\<open>abc\<close>, \<^verbatim>\<open>64\<close> and \<^verbatim>\<open>-1\<close>.
\<close>

theorem C3_counterexample_one_error_kind:
  "executeCurlCommand (ExecResolved (ascii ''abc'') []) = Inl (InvalidResponse (ascii ''abc''))
   \<and> executeCurlCommand (ExecResolved (ascii ''64'') []) = Inl (InvalidResponse (ascii ''64''))
   \<and> executeCurlCommand (ExecResolved (ascii ''-1'') []) = Inl (InvalidResponse (ascii ''-1''))"
  by (simp add: decode_defs)

text \<open>
  C3, amended. \<^verbatim>\<open>executeCurlCommand\<close> trims the output and reads it with
  \<^verbatim>\<open>parseInt\<close> in base ten. With an empty error output: the result is the integer read
  exactly when one is read and it lies between 0 and 63; in every other case, whether
  nothing could be read or the integer is out of range, the one error "Invalid response"
  with the output is thrown. \<^verbatim>\<open>trim\<close> removes the white space around a text that neither
  begins nor ends with white space. \<^verbatim>\<open>parseInt\<close> reads, after any white space, a
  non-empty run of digits that no digit follows as its decimal value, negated after a minus
  sign and as it is after a plus sign, ignoring what follows; a sign that no digit follows,
  and a text that begins with neither white space, a sign nor a digit, read as nothing.
  So digits with white space around them are accepted with their value when it is at most
  63 and refused otherwise.
\<close>

theorem C3_decode_range_one_error:
  "(executeCurlCommand (ExecResolved out []) = Inr n \<longrightarrow>
      0 \<le> n \<and> n \<le> 63 \<and> parseInt (trim out) = Some n)
   \<and> (executeCurlCommand (ExecResolved out []) = Inl err \<longrightarrow> err = InvalidResponse out)
   \<and> (parseInt (trim out) = None \<longrightarrow>
        executeCurlCommand (ExecResolved out []) = Inl (InvalidResponse out))
   \<and> (parseInt (trim out) = Some n \<and> 0 \<le> n \<and> n \<le> 63 \<longrightarrow>
        executeCurlCommand (ExecResolved out []) = Inr n)
   \<and> (parseInt (trim out) = Some n \<and> (n < 0 \<or> 63 < n) \<longrightarrow>
        executeCurlCommand (ExecResolved out []) = Inl (InvalidResponse out))
   \<and> (list_all isWhiteSpace ws \<and> list_all isWhiteSpace ws'
        \<and> (body = [] \<or> (\<not> isWhiteSpace (hd body) \<and> \<not> isWhiteSpace (last body))) \<longrightarrow>
        trim (ws @ body @ ws') = body)
   \<and> (list_all isWhiteSpace ws \<and> ds \<noteq> [] \<and> list_all isDigit ds
        \<and> (rest = [] \<or> \<not> isDigit (hd rest)) \<longrightarrow>
        parseInt (ws @ ds @ rest) = Some (decimalValue ds)
        \<and> parseInt (ws @ plusSign # ds @ rest) = Some (decimalValue ds)
        \<and> parseInt (ws @ minusSign # ds @ rest) = Some (- decimalValue ds))
   \<and> (list_all isWhiteSpace ws \<and> (rest = [] \<or> \<not> isDigit (hd rest)) \<longrightarrow>
        parseInt (ws @ minusSign # rest) = None \<and> parseInt (ws @ plusSign # rest) = None)
   \<and> (list_all isWhiteSpace ws
        \<and> (rest = [] \<or> (\<not> isDigit (hd rest) \<and> \<not> isWhiteSpace (hd rest)
                          \<and> hd rest \<noteq> minusSign \<and> hd rest \<noteq> plusSign)) \<longrightarrow>
        parseInt (ws @ rest) = None)
   \<and> (list_all isWhiteSpace ws \<and> list_all isWhiteSpace ws' \<and> ds \<noteq> [] \<and> list_all isDigit ds \<longrightarrow>
        executeCurlCommand (ExecResolved (ws @ ds @ ws') [])
          = (if decimalValue ds \<le> 63 then Inr (decimalValue ds)
             else Inl (InvalidResponse (ws @ ds @ ws'))))"
proof (intro conjI impI)
  assume "executeCurlCommand (ExecResolved out []) = Inr n"
  then show "0 \<le> n" and "n \<le> 63" and "parseInt (trim out) = Some n"
    by (auto simp: executeCurlCommand_def split: option.splits if_splits)
next
  assume "executeCurlCommand (ExecResolved out []) = Inl err"
  then show "err = InvalidResponse out"
    by (auto simp: executeCurlCommand_def split: option.splits if_splits)
next
  assume "parseInt (trim out) = None"
  then show "executeCurlCommand (ExecResolved out []) = Inl (InvalidResponse out)"
    by (simp add: executeCurlCommand_def)
next
  assume "parseInt (trim out) = Some n \<and> 0 \<le> n \<and> n \<le> 63"
  then show "executeCurlCommand (ExecResolved out []) = Inr n"
    by (simp add: executeCurlCommand_def)
next
  assume "parseInt (trim out) = Some n \<and> (n < 0 \<or> 63 < n)"
  then show "executeCurlCommand (ExecResolved out []) = Inl (InvalidResponse out)"
    by (auto simp: executeCurlCommand_def)
next
  assume "list_all isWhiteSpace ws \<and> list_all isWhiteSpace ws'
        \<and> (body = [] \<or> (\<not> isWhiteSpace (hd body) \<and> \<not> isWhiteSpace (last body)))"
  then show "trim (ws @ body @ ws') = body"
    by (simp add: trim_shape)
next
  assume h: "list_all isWhiteSpace ws \<and> ds \<noteq> [] \<and> list_all isDigit ds
        \<and> (rest = [] \<or> \<not> isDigit (hd rest))"
  then have a: "list_all isWhiteSpace ws" and b: "ds \<noteq> []" and c: "list_all isDigit ds"
    and d: "rest = [] \<or> \<not> isDigit (hd rest)"
    by simp_all
  show "parseInt (ws @ ds @ rest) = Some (decimalValue ds)"
    by (rule parseInt_unsigned [OF a b c d])
  show "parseInt (ws @ plusSign # ds @ rest) = Some (decimalValue ds)"
    by (rule parseInt_signed(2) [OF a b c d])
  show "parseInt (ws @ minusSign # ds @ rest) = Some (- decimalValue ds)"
    by (rule parseInt_signed(1) [OF a b c d])
next
  assume h: "list_all isWhiteSpace ws \<and> (rest = [] \<or> \<not> isDigit (hd rest))"
  then have a: "list_all isWhiteSpace ws" and d: "rest = [] \<or> \<not> isDigit (hd rest)"
    by simp_all
  show "parseInt (ws @ minusSign # rest) = None"
    by (rule parseInt_sign_only(1) [OF a d])
  show "parseInt (ws @ plusSign # rest) = None"
    by (rule parseInt_sign_only(2) [OF a d])
next
  assume h: "list_all isWhiteSpace ws
        \<and> (rest = [] \<or> (\<not> isDigit (hd rest) \<and> \<not> isWhiteSpace (hd rest)
                          \<and> hd rest \<noteq> minusSign \<and> hd rest \<noteq> plusSign))"
  then have a: "list_all isWhiteSpace ws"
    and d: "rest = [] \<or> (\<not> isDigit (hd rest) \<and> \<not> isWhiteSpace (hd rest)
                          \<and> hd rest \<noteq> minusSign \<and> hd rest \<noteq> plusSign)"
    by simp_all
  show "parseInt (ws @ rest) = None"
    by (rule parseInt_no_digit [OF a d])
next
  assume h: "list_all isWhiteSpace ws \<and> list_all isWhiteSpace ws' \<and> ds \<noteq> []
             \<and> list_all isDigit ds"
  then have a: "list_all isWhiteSpace ws" and a': "list_all isWhiteSpace ws'"
    and b: "ds \<noteq> []" and c: "list_all isDigit ds"
    by simp_all
  have "isDigit (hd ds)" and "isDigit (last ds)"
    using b c by (simp_all add: list_all_iff)
  then have "ds = [] \<or> (\<not> isWhiteSpace (hd ds) \<and> \<not> isWhiteSpace (last ds))"
    by (simp add: isDigit_not_space)
  then have t: "trim (ws @ ds @ ws') = ds"
    by (rule trim_shape [OF a a'])
  have "parseInt ([] @ ds @ []) = Some (decimalValue ds)"
    by (rule parseInt_unsigned) (simp_all add: b c)
  then have p: "parseInt ds = Some (decimalValue ds)"
    by simp
  have "0 \<le> decimalValue ds"
    by (rule decimalValue_nonneg [OF c])
  then show "executeCurlCommand (ExecResolved (ws @ ds @ ws') [])
          = (if decimalValue ds \<le> 63 then Inr (decimalValue ds)
             else Inl (InvalidResponse (ws @ ds @ ws')))"
    by (simp add: executeCurlCommand_def t p)
qed

theorem C3_decode_range_one_error_witness:
  "executeCurlCommand (ExecResolved ([0xA0] @ ascii ''63'' @ [0x0A]) []) = Inr 63
   \<and> executeCurlCommand (ExecResolved (ascii ''064'') []) = Inl (InvalidResponse (ascii ''064''))
   \<and> parseInt (ascii '' '' @ ascii ''12'' @ ascii ''abc'') = Some 12
   \<and> executeCurlCommand (ExecResolved (ascii '' 12abc'') []) = Inr 12
   \<and> executeCurlCommand (ExecResolved (ascii ''x7'') []) = Inl (InvalidResponse (ascii ''x7''))
   \<and> parseInt [minusSign] = None
   \<and> trim ([0x3000] @ ascii ''7 8'' @ [0x0D, 0x0A]) = ascii ''7 8''"
proof -
  note at_63 = C3_decode_range_one_error [where out = "ascii '' 12abc''" and n = 12
      and err = "InvalidResponse []" and ws = "[0xA0]" and ws' = "[0x0A]"
      and body = "ascii ''63''" and ds = "ascii ''63''" and rest = "[]"]
  note at_064 = C3_decode_range_one_error [where out = "ascii ''x7''" and n = 0
      and err = "InvalidResponse []" and ws = "[]" and ws' = "[]"
      and body = "[]" and ds = "ascii ''064''" and rest = "[]"]
  note at_12 = C3_decode_range_one_error [where out = "ascii ''x7''" and n = 0
      and err = "InvalidResponse []" and ws = "ascii '' ''" and ws' = "[]"
      and body = "[]" and ds = "ascii ''12''" and rest = "ascii ''abc''"]
  note at_trim = C3_decode_range_one_error [where out = "ascii ''x7''" and n = 0
      and err = "InvalidResponse []" and ws = "[0x3000]" and ws' = "[0x0D, 0x0A]"
      and body = "ascii ''7 8''" and ds = "ascii ''12''" and rest = "ascii ''abc''"]
  have h63: "list_all isWhiteSpace [0xA0] \<and> list_all isWhiteSpace [0x0A]
             \<and> ascii ''63'' \<noteq> [] \<and> list_all isDigit (ascii ''63'')"
    by (simp add: decode_defs)
  have v63: "decimalValue (ascii ''63'') = 63"
    by (simp add: decode_defs)
  have h064: "list_all isWhiteSpace [] \<and> list_all isWhiteSpace []
              \<and> ascii ''064'' \<noteq> [] \<and> list_all isDigit (ascii ''064'')"
    by (simp add: decode_defs)
  have v064: "decimalValue (ascii ''064'') = 64"
    by (simp add: decode_defs)
  have h12: "list_all isWhiteSpace (ascii '' '') \<and> ascii ''12'' \<noteq> []
             \<and> list_all isDigit (ascii ''12'')
             \<and> (ascii ''abc'' = [] \<or> \<not> isDigit (hd (ascii ''abc'')))"
    by (simp add: decode_defs)
  have v12: "decimalValue (ascii ''12'') = 12"
    by (simp add: decode_defs)
  have p12: "parseInt (trim (ascii '' 12abc'')) = Some 12 \<and> (0::int) \<le> 12 \<and> (12::int) \<le> 63"
    by (simp add: decode_defs)
  have px: "parseInt (trim (ascii ''x7'')) = None"
    by (simp add: decode_defs)
  have hs: "list_all isWhiteSpace [] \<and> (([]::nat list) = [] \<or> \<not> isDigit (hd []))"
    by simp
  have ht: "list_all isWhiteSpace [0x3000] \<and> list_all isWhiteSpace [0x0D, 0x0A]
            \<and> (ascii ''7 8'' = []
               \<or> (\<not> isWhiteSpace (hd (ascii ''7 8'')) \<and> \<not> isWhiteSpace (last (ascii ''7 8''))))"
    by (simp add: decode_defs)
  have "executeCurlCommand (ExecResolved ([0xA0] @ ascii ''63'' @ [0x0A]) [])
          = (if decimalValue (ascii ''63'') \<le> 63 then Inr (decimalValue (ascii ''63''))
             else Inl (InvalidResponse ([0xA0] @ ascii ''63'' @ [0x0A])))"
    using at_63 h63 by blast
  then have w1: "executeCurlCommand (ExecResolved ([0xA0] @ ascii ''63'' @ [0x0A]) []) = Inr 63"
    by (simp only: v63) simp
  have "executeCurlCommand (ExecResolved ([] @ ascii ''064'' @ []) [])
          = (if decimalValue (ascii ''064'') \<le> 63 then Inr (decimalValue (ascii ''064''))
             else Inl (InvalidResponse ([] @ ascii ''064'' @ [])))"
    using at_064 h064 by blast
  then have w2: "executeCurlCommand (ExecResolved (ascii ''064'') [])
                 = Inl (InvalidResponse (ascii ''064''))"
    by (simp only: v064 append_Nil append_Nil2) simp
  have "parseInt (ascii '' '' @ ascii ''12'' @ ascii ''abc'') = Some (decimalValue (ascii ''12''))"
    using at_12 h12 by blast
  then have w3: "parseInt (ascii '' '' @ ascii ''12'' @ ascii ''abc'') = Some 12"
    by (simp only: v12)
  have w4: "executeCurlCommand (ExecResolved (ascii '' 12abc'') []) = Inr 12"
    using at_63 p12 by blast
  have w5: "executeCurlCommand (ExecResolved (ascii ''x7'') [])
            = Inl (InvalidResponse (ascii ''x7''))"
    using at_064 px by blast
  have "parseInt ([] @ minusSign # []) = None"
    using at_064 hs by blast
  then have w6: "parseInt [minusSign] = None"
    by (simp only: append_Nil)
  have w7: "trim ([0x3000] @ ascii ''7 8'' @ [0x0D, 0x0A]) = ascii ''7 8''"
    using at_trim ht by blast
  show ?thesis
    using w1 w2 w3 w4 w5 w6 w7 by blast
qed

end
